theory Spec2Isabelle
  imports Complex_Main
begin

section \<open>Values, platforms and exceptions\<close>

text \<open>
  The two platform tags of \<^verbatim>\<open>types.ts\<close>, and the values the code can throw.
  Every error class of the library carries a message and an optional platform tag;
  \<open>TypeError\<close> and \<open>RangeError\<close> are the built-in classes raised by the runtime,
  \<open>AxiosError\<close> is what the HTTP client rejects with, \<open>PlainError\<close> is the base class
  \<^verbatim>\<open>Error\<close>. \<open>ThrownUndefined\<close> is the value \<^verbatim>\<open>undefined\<close> used as an exception:
  \<^verbatim>\<open>retry\<close> throws it when its loop never ran.
\<close>

datatype platform = Instagram | Facebook

datatype err_class =
  URLError | NetworkError | ParseError | TypeError | RangeError | AxiosError | PlainError

datatype thrown = Exn err_class string "platform option" | ThrownUndefined

text \<open>
  An argument typed \<^verbatim>\<open>string\<close> in TypeScript can still be any value at run time.
  \<open>NotAString\<close> stands for every value whose \<^verbatim>\<open>typeof\<close> is not \<^verbatim>\<open>'string'\<close>
  (undefined, null, a number, an object).
\<close>

datatype jsarg = Str string | NotAString

section \<open>String primitives\<close>

text \<open>
  Strings are lists of 8-bit characters; only ASCII letters change case. JavaScript
  also lower-cases letters outside ASCII (the Kelvin sign U+212A becomes \<open>k\<close>); such
  text lies outside the model.
\<close>

definition lower_char :: "char \<Rightarrow> char" where
  "lower_char c =
     (if 65 \<le> (of_char c :: nat) \<and> (of_char c :: nat) \<le> 90
      then char_of ((of_char c :: nat) + 32) else c)"

definition toLowerCase :: "string \<Rightarrow> string" where
  "toLowerCase s = map lower_char s"

fun startsWith :: "string \<Rightarrow> string \<Rightarrow> bool" where
  "startsWith s [] = True"
| "startsWith [] (p # ps) = False"
| "startsWith (c # cs) (p # ps) = (c = p \<and> startsWith cs ps)"

fun str_includes :: "string \<Rightarrow> string \<Rightarrow> bool" where
  "str_includes [] sub = (sub = [])"
| "str_includes (c # cs) sub = (startsWith (c # cs) sub \<or> str_includes cs sub)"

definition endsWith :: "string \<Rightarrow> char \<Rightarrow> bool" where
  "endsWith s c = (s \<noteq> [] \<and> last s = c)"

text \<open>\<^verbatim>\<open>s.split(c)[0]\<close>: the text before the first occurrence of \<open>c\<close>.\<close>

definition split0 :: "char \<Rightarrow> string \<Rightarrow> string" where
  "split0 c s = takeWhile (\<lambda>x. x \<noteq> c) s"

section \<open>The platform's URL constructor\<close>

text \<open>
  \<^verbatim>\<open>new URL(url)\<close> and \<^verbatim>\<open>searchParams.get\<close> belong to the runtime, not to the
  repository. They are modelled after the URL standard as far as the classifier depends
  on them: leading and trailing C0 controls and spaces are stripped, tabs and newlines
  are removed, an input without a scheme is rejected (there is no base URL), the query
  runs from the first \<open>?\<close> to the first \<open>#\<close>, and query parameters are read with the
  form-urlencoded rules (split at \<open>&\<close>, then at the first \<open>=\<close>, \<open>+\<close> is a space,
  \<open>%XX\<close> is the byte XX, kept as one character). Host validation covers missing
  hosts, credentials without a host, forbidden host characters and the port range, for
  the special schemes (http, https, ftp, ws, wss) and for the opaque hosts of the other
  schemes; \<open>file\<close> is accepted as it stands. IP-address literals, internationalised
  names and text outside ASCII are outside the model.
\<close>

definition c0_or_space :: "char \<Rightarrow> bool" where
  "c0_or_space c = ((of_char c :: nat) \<le> 32)"

definition tab_or_newline :: "char \<Rightarrow> bool" where
  "tab_or_newline c = ((of_char c :: nat) \<in> {9, 10, 13})"

definition is_alpha :: "char \<Rightarrow> bool" where
  "is_alpha c = (let n = (of_char c :: nat) in (65 \<le> n \<and> n \<le> 90) \<or> (97 \<le> n \<and> n \<le> 122))"

definition is_digit :: "char \<Rightarrow> bool" where
  "is_digit c = (let n = (of_char c :: nat) in 48 \<le> n \<and> n \<le> 57)"

definition is_alnum :: "char \<Rightarrow> bool" where
  "is_alnum c = (is_alpha c \<or> is_digit c)"

definition url_preprocess :: "string \<Rightarrow> string" where
  "url_preprocess s =
     filter (\<lambda>c. \<not> tab_or_newline c)
       (rev (dropWhile c0_or_space (rev (dropWhile c0_or_space s))))"

definition scheme_char :: "char \<Rightarrow> bool" where
  "scheme_char c = (is_alnum c \<or> c = CHR ''+'' \<or> c = CHR ''-'' \<or> c = CHR ''.'')"

text \<open>The scheme (lower-cased) and the text after its colon, if the input has a scheme.\<close>

definition split_scheme :: "string \<Rightarrow> (string \<times> string) option" where
  "split_scheme s =
     (case s of
        [] \<Rightarrow> None
      | c # cs \<Rightarrow>
          if \<not> is_alpha c then None
          else (case dropWhile scheme_char s of
                  [] \<Rightarrow> None
                | d # rest \<Rightarrow>
                    if d = CHR '':'' then Some (toLowerCase (takeWhile scheme_char s), rest)
                    else None))"

text \<open>Percent-decoding: \<open>%XX\<close> with two hexadecimal digits is the byte XX.\<close>

definition hex_val :: "char \<Rightarrow> nat option" where
  "hex_val c =
     (let n = (of_char c :: nat) in
      if 48 \<le> n \<and> n \<le> 57 then Some (n - 48)
      else if 65 \<le> n \<and> n \<le> 70 then Some (n - 55)
      else if 97 \<le> n \<and> n \<le> 102 then Some (n - 87)
      else None)"

fun percent_decode :: "string \<Rightarrow> string" where
  "percent_decode (p # a # b # cs) =
     (if p = CHR ''%'' then
        (case (hex_val a, hex_val b) of
           (Some h, Some l) \<Rightarrow> char_of (16 * h + l) # percent_decode cs
         | _ \<Rightarrow> p # percent_decode (a # b # cs))
      else p # percent_decode (a # b # cs))"
| "percent_decode cs = cs"


definition forbidden_host_char :: "char \<Rightarrow> bool" where
  "forbidden_host_char c =
     (c0_or_space c \<or> (of_char c :: nat) = 127 \<or> c \<in> set (CHR 0x5C # ''#%/:<>?@[]^|''))"

definition is_slash :: "char \<Rightarrow> bool" where
  "is_slash c = (c = CHR ''/'' \<or> c = CHR 0x5C)"

definition decimal :: "string \<Rightarrow> int" where
  "decimal s = foldl (\<lambda>n c. 10 * n + ((of_char c :: int) - 48)) 0 s"

definition special_scheme :: "string \<Rightarrow> bool" where
  "special_scheme scheme = (scheme \<in> set [''http'', ''https'', ''ftp'', ''ws'', ''wss''])"

text \<open>The authority: what follows the leading slashes, up to the next slash.\<close>

definition authority_of :: "string \<Rightarrow> string" where
  "authority_of hier = takeWhile (\<lambda>c. \<not> is_slash c) (dropWhile is_slash hier)"

text \<open>Host and port: the authority after its last \<open>@\<close>.\<close>

definition hostport_of :: "string \<Rightarrow> string" where
  "hostport_of authority = rev (takeWhile (\<lambda>c. c \<noteq> CHR ''@'') (rev authority))"

definition host_of :: "string \<Rightarrow> string" where
  "host_of hostport = takeWhile (\<lambda>c. c \<noteq> CHR '':'') hostport"

definition port_of :: "string \<Rightarrow> string" where
  "port_of hostport = drop 1 (dropWhile (\<lambda>c. c \<noteq> CHR '':'') hostport)"

definition host_valid :: "string \<Rightarrow> bool" where
  "host_valid host = (host \<noteq> [] \<and> \<not> list_ex forbidden_host_char host)"

definition port_valid :: "string \<Rightarrow> bool" where
  "port_valid port = (list_all is_digit port \<and> decimal port \<le> 65535)"

text \<open>
  The host of a scheme that is not special is opaque: it may be empty and may hold
  control characters, but not the forbidden host characters.
\<close>

definition forbidden_opaque_host_char :: "char \<Rightarrow> bool" where
  "forbidden_opaque_host_char c =
     ((of_char c :: nat) = 0 \<or> (of_char c :: nat) = 32 \<or> tab_or_newline c
      \<or> c \<in> set (CHR 0x5C # ''#/:<>?@[]^|''))"

definition opaque_authority_of :: "string \<Rightarrow> string" where
  "opaque_authority_of hier = takeWhile (\<lambda>c. c \<noteq> CHR ''/'') (drop 2 hier)"

text \<open>Credentials must be followed by a host, and a port must be preceded by one.\<close>

definition credentials_ok :: "string \<Rightarrow> bool" where
  "credentials_ok authority =
     (if CHR ''@'' \<in> set authority then hostport_of authority \<noteq> [] else True)"

definition host_before_port :: "string \<Rightarrow> bool" where
  "host_before_port hostport =
     (if CHR '':'' \<in> set hostport then host_of hostport \<noteq> [] else True)"

definition opaque_authority_valid :: "string \<Rightarrow> bool" where
  "opaque_authority_valid authority =
     (credentials_ok authority \<and> host_before_port (hostport_of authority)
      \<and> \<not> list_ex forbidden_opaque_host_char (host_of (hostport_of authority))
      \<and> port_valid (port_of (hostport_of authority)))"

text \<open>
  Whether the part of the URL between the scheme and the query names an acceptable
  authority. A special scheme needs a host, whose escapes are decoded first; another
  scheme has an authority only after two slashes; \<open>file\<close> is accepted as it stands.
\<close>

definition hier_ok :: "string \<Rightarrow> string \<Rightarrow> bool" where
  "hier_ok scheme hier =
     (if special_scheme scheme
      then host_valid (percent_decode (host_of (hostport_of (authority_of hier))))
           \<and> port_valid (port_of (hostport_of (authority_of hier)))
      else if scheme \<noteq> ''file'' \<and> startsWith hier ''//''
      then opaque_authority_valid (opaque_authority_of hier)
      else True)"

text \<open>The text before the fragment, and its two parts: before and after the first \<open>?\<close>.\<close>

definition before_fragment :: "string \<Rightarrow> string" where
  "before_fragment rest = takeWhile (\<lambda>c. c \<noteq> CHR ''#'') rest"

definition hier_of :: "string \<Rightarrow> string" where
  "hier_of body = takeWhile (\<lambda>c. c \<noteq> CHR ''?'') body"

definition query_of :: "string \<Rightarrow> string option" where
  "query_of body =
     (case dropWhile (\<lambda>c. c \<noteq> CHR ''?'') body of [] \<Rightarrow> None | c # q \<Rightarrow> Some q)"

text \<open>
  \<^verbatim>\<open>new URL(url)\<close>: \<open>None\<close> is the \<^verbatim>\<open>TypeError\<close> of an invalid URL; otherwise the
  result is the raw query text, if the URL has a query.
\<close>

definition js_new_URL :: "string \<Rightarrow> string option option" where
  "js_new_URL url =
     (case split_scheme (url_preprocess url) of
        None \<Rightarrow> None
      | Some (scheme, rest) \<Rightarrow>
          if \<not> hier_ok scheme (hier_of (before_fragment rest)) then None
          else Some (query_of (before_fragment rest)))"

fun split_on :: "char \<Rightarrow> string \<Rightarrow> string list" where
  "split_on sep [] = [[]]"
| "split_on sep (c # cs) =
     (if c = sep then [] # split_on sep cs
      else (case split_on sep cs of
              [] \<Rightarrow> [[c]]
            | w # ws \<Rightarrow> (c # w) # ws))"

definition form_decode :: "string \<Rightarrow> string" where
  "form_decode s = percent_decode (map (\<lambda>c. if c = CHR ''+'' then CHR '' '' else c) s)"

text \<open>The name-value pairs of a query, in order.\<close>

definition searchParams :: "string \<Rightarrow> (string \<times> string) list" where
  "searchParams q =
     map (\<lambda>piece.
            (form_decode (takeWhile (\<lambda>c. c \<noteq> CHR ''='') piece),
             form_decode (drop 1 (dropWhile (\<lambda>c. c \<noteq> CHR ''='') piece))))
       (filter (\<lambda>piece. piece \<noteq> []) (split_on CHR ''&'' q))"

text \<open>\<^verbatim>\<open>searchParams.get(name)\<close>: the first value stored under the name.\<close>

definition searchParams_get :: "string option \<Rightarrow> string \<Rightarrow> string option" where
  "searchParams_get query name =
     (case query of None \<Rightarrow> None | Some q \<Rightarrow> map_of (searchParams q) name)"

section \<open>URL classifier (utils.ts)\<close>

definition normalizeInstagramURL :: "string \<Rightarrow> string" where
  "normalizeInstagramURL url =
     (let cleanUrl = split0 CHR ''?'' url
      in if endsWith cleanUrl CHR ''/'' then cleanUrl else cleanUrl @ ''/'')"

definition normalizeFacebookURL :: "string \<Rightarrow> thrown + string" where
  "normalizeFacebookURL url =
     (if str_includes url ''fb.watch'' then Inr url
      else (case js_new_URL url of
              None \<Rightarrow> Inl (Exn TypeError ''Invalid URL'' None)
            | Some query \<Rightarrow>
                (case searchParams_get query ''v'' of
                   None \<Rightarrow> Inr (split0 CHR ''?'' url)
                 | Some videoId \<Rightarrow>
                     if videoId \<noteq> [] then Inr (''https://www.facebook.com/watch/?v='' @ videoId)
                     else Inr (split0 CHR ''?'' url))))"

record validated =
  platform :: platform
  normalizedUrl :: string

definition validateURL :: "jsarg \<Rightarrow> thrown + validated" where
  "validateURL arg =
     (case arg of
        NotAString \<Rightarrow> Inl (Exn URLError ''URL must be a non-empty string'' None)
      | Str url \<Rightarrow>
          if url = [] then Inl (Exn URLError ''URL must be a non-empty string'' None)
          else
            (let urlLower = toLowerCase url in
             if str_includes urlLower ''instagram.com'' then
               Inr \<lparr>platform = Instagram, normalizedUrl = normalizeInstagramURL url\<rparr>
             else if str_includes urlLower ''facebook.com'' \<or> str_includes urlLower ''fb.com''
                     \<or> str_includes urlLower ''fb.watch'' then
               (case normalizeFacebookURL url of
                  Inl e \<Rightarrow> Inl e
                | Inr n \<Rightarrow> Inr \<lparr>platform = Facebook, normalizedUrl = n\<rparr>)
             else Inl (Exn URLError
                    ''Unsupported platform. Only Instagram and Facebook are supported'' None)))"




text \<open>
  \<^verbatim>\<open>SocialMediaScraper.isSupported\<close>: the classifier inside a \<^verbatim>\<open>try\<close> whose
  \<^verbatim>\<open>catch\<close> returns \<^verbatim>\<open>false\<close> for whatever was thrown.
\<close>

definition isSupported :: "jsarg \<Rightarrow> thrown + bool" where
  "isSupported url = (case validateURL url of Inl e \<Rightarrow> Inr False | Inr r \<Rightarrow> Inr True)"

section \<open>Asynchronous operations and the retry wrapper (utils.ts)\<close>

text \<open>
  An asynchronous operation runs against a world: the state it acts on (the network, for
  the scrapers) and the delays waited so far, oldest first. It either throws or returns.
\<close>

record 's world =
  state :: 's
  slept :: "int list"

type_synonym ('s, 'a) async = "'s world \<Rightarrow> (thrown + 'a) \<times> 's world"

definition sleep :: "int \<Rightarrow> 's world \<Rightarrow> 's world" where
  "sleep ms w = w\<lparr>slept := slept w @ [ms]\<rparr>"

text \<open>
  The loop of \<^verbatim>\<open>retry\<close>, from index \<open>i\<close>. \<open>lastError\<close> starts as \<^verbatim>\<open>undefined\<close>; the
  numbers are integers (the code would also accept fractions and \<^verbatim>\<open>NaN\<close>).
\<close>

function retry_loop ::
  "('s, 'a) async \<Rightarrow> int \<Rightarrow> int \<Rightarrow> int \<Rightarrow> thrown \<Rightarrow> ('s, 'a) async" where
  "retry_loop fn retries delay i lastError w =
     (if i < retries then
        (case fn w of
           (Inr v, w') \<Rightarrow> (Inr v, w')
         | (Inl error, w') \<Rightarrow>
             retry_loop fn retries delay (i + 1) error
               (if i < retries - 1 then sleep (delay * (i + 1)) w' else w'))
      else (Inl lastError, w))"
  by pat_completeness auto
termination
  by (relation "measure (\<lambda>(fn, retries, delay, i, lastError, w). nat (retries - i))") auto

definition retry :: "('s, 'a) async \<Rightarrow> int \<Rightarrow> int \<Rightarrow> ('s, 'a) async" where
  "retry fn retries delay w = retry_loop fn retries delay 0 ThrownUndefined w"

text \<open>
  A test double for an operation: its \<open>n\<close>-th invocation (from 0) has the outcome
  \<open>outcome n\<close>, and its state is the number of invocations so far.
\<close>

definition scripted :: "(nat \<Rightarrow> thrown + 'a) \<Rightarrow> (nat, 'a) async" where
  "scripted outcome w = (outcome (state w), w\<lparr>state := Suc (state w)\<rparr>)"

text \<open>The delays of a linear backoff after each of the failed attempts \<open>i..<j\<close>.\<close>

definition backoff :: "int \<Rightarrow> nat \<Rightarrow> nat \<Rightarrow> int list" where
  "backoff delay i j = map (\<lambda>n. delay * (int n + 1)) [i..<j]"

section \<open>Scraper configuration (types.ts, constructors)\<close>

text \<open>
  \<^verbatim>\<open>ScraperConfig\<close> has optional fields, the effective configuration
  (\<^verbatim>\<open>Required<ScraperConfig>\<close>) has them all: one record, at two instances. Times and
  counts are integers.
\<close>

record ('s, 'n) config =
  userAgent :: 's
  timeout :: 'n
  retries :: 'n
  retryDelay :: 'n
  proxy :: 's
  cookies :: 's

type_synonym ScraperConfig = "(string option, int option) config"
type_synonym RequiredConfig = "(string, int) config"

text \<open>\<^verbatim>\<open>x || d\<close> on an optional string and on an optional number.\<close>

definition or_str :: "string option \<Rightarrow> string \<Rightarrow> string" where
  "or_str x d = (case x of None \<Rightarrow> d | Some s \<Rightarrow> if s = [] then d else s)"

definition or_num :: "int option \<Rightarrow> int \<Rightarrow> int" where
  "or_num x d = (case x of None \<Rightarrow> d | Some n \<Rightarrow> if n = 0 then d else n)"

definition defaultUserAgent :: string where
  "defaultUserAgent = ''Mozilla/5.0 (Windows NT 10.0; Win64; x64) AppleWebKit/537.36 (KHTML, like Gecko) Chrome/120.0.0.0 Safari/537.36''"

definition emptyConfig :: ScraperConfig where
  "emptyConfig = \<lparr>userAgent = None, timeout = None, retries = None, retryDelay = None,
                   proxy = None, cookies = None\<rparr>"

definition InstagramScraper_config :: "ScraperConfig \<Rightarrow> RequiredConfig" where
  "InstagramScraper_config config =
     \<lparr>userAgent = or_str (userAgent config) defaultUserAgent,
      timeout = or_num (timeout config) 10000,
      retries = or_num (retries config) 3,
      retryDelay = or_num (retryDelay config) 1000,
      proxy = or_str (proxy config) [],
      cookies = or_str (cookies config) []\<rparr>"

definition FacebookScraper_config :: "ScraperConfig \<Rightarrow> RequiredConfig" where
  "FacebookScraper_config config =
     \<lparr>userAgent = or_str (userAgent config) defaultUserAgent,
      timeout = or_num (timeout config) 10000,
      retries = or_num (retries config) 3,
      retryDelay = or_num (retryDelay config) 1000,
      proxy = or_str (proxy config) [],
      cookies = or_str (cookies config) []\<rparr>"

section \<open>Identifier extraction (utils.ts)\<close>

text \<open>
  The regular expressions of the two extractors use literals, one optional character,
  \<^verbatim>\<open>.*\<close> and one captured class repetition. A pattern is a list of such atoms;
  matching is greedy with backtracking, and a search takes the leftmost match. The dot
  stops at a line feed and a carriage return; the line separators U+2028 and U+2029,
  which also stop it in JavaScript, lie outside the 8-bit characters of the model.
\<close>

datatype atom = Lit string | Opt char | Many "char \<Rightarrow> bool" | Capture "char \<Rightarrow> bool"

fun first_some :: "'a option list \<Rightarrow> 'a option" where
  "first_some [] = None"
| "first_some (None # xs) = first_some xs"
| "first_some (Some x # xs) = Some x"

text \<open>The capture group of a match of the pattern at the start of the text, if there is one.\<close>

fun match_here :: "atom list \<Rightarrow> string \<Rightarrow> string \<Rightarrow> string option" where
  "match_here [] s cap = Some cap"
| "match_here (Lit l # r) s cap =
     (if startsWith s l then match_here r (drop (length l) s) cap else None)"
| "match_here (Opt c # r) s cap =
     (case (if startsWith s [c] then match_here r (drop 1 s) cap else None) of
        Some x \<Rightarrow> Some x
      | None \<Rightarrow> match_here r s cap)"
| "match_here (Many p # r) s cap =
     first_some (map (\<lambda>n. match_here r (drop n s) cap)
                   (rev [0..<Suc (length (takeWhile p s))]))"
| "match_here (Capture p # r) s cap =
     first_some (map (\<lambda>n. match_here r (drop n s) (take n s))
                   (rev [1..<Suc (length (takeWhile p s))]))"

text \<open>\<^verbatim>\<open>s.match(pattern)\<close>, reduced to group 1 of the leftmost match.\<close>

definition regex_match :: "atom list \<Rightarrow> string \<Rightarrow> string option" where
  "regex_match pat s = first_some (map (\<lambda>i. match_here pat (drop i s) []) [0..<Suc (length s)])"

definition not_slash_or_query :: "char \<Rightarrow> bool" where
  "not_slash_or_query c = (c \<noteq> CHR ''/'' \<and> c \<noteq> CHR ''?'')"

definition not_line_end :: "char \<Rightarrow> bool" where
  "not_line_end c = ((of_char c :: nat) \<noteq> 10 \<and> (of_char c :: nat) \<noteq> 13)"

definition instagram_patterns :: "atom list list" where
  "instagram_patterns =
     [[Lit ''instagram.com/p/'', Capture not_slash_or_query],
      [Lit ''instagram.com/reel/'', Capture not_slash_or_query],
      [Lit ''instagram.com/tv/'', Capture not_slash_or_query]]"

definition facebook_patterns :: "atom list list" where
  "facebook_patterns =
     [[Lit ''facebook.com/watch'', Opt CHR ''/'', Lit ''?v='', Capture is_digit],
      [Lit ''facebook.com/'', Many not_line_end, Lit ''/videos/'', Capture is_digit],
      [Lit ''fb.watch/'', Capture not_slash_or_query],
      [Lit ''facebook.com/video.php?v='', Capture is_digit]]"

definition extractInstagramShortcode :: "string \<Rightarrow> string option" where
  "extractInstagramShortcode url = first_some (map (\<lambda>pat. regex_match pat url) instagram_patterns)"

definition extractFacebookVideoId :: "string \<Rightarrow> string option" where
  "extractFacebookVideoId url = first_some (map (\<lambda>pat. regex_match pat url) facebook_patterns)"

section \<open>Text helpers (utils.ts)\<close>

definition is_space :: "char \<Rightarrow> bool" where
  "is_space c = ((of_char c :: nat) \<in> {9, 10, 11, 12, 13, 32})"

definition is_word :: "char \<Rightarrow> bool" where
  "is_word c = (is_alnum c \<or> c = CHR ''_'')"

text \<open>
  White space is the ASCII white space; the no-break space and the other Unicode spaces
  that the white-space class of regular expressions and \<^verbatim>\<open>trim\<close> also cover lie
  outside the model. Runs of white space become one space; \<open>prev\<close> says the last
  character was white space.
\<close>

fun collapse_spaces :: "bool \<Rightarrow> string \<Rightarrow> string" where
  "collapse_spaces prev [] = []"
| "collapse_spaces prev (c # cs) =
     (if is_space c then (if prev then collapse_spaces True cs else CHR '' '' # collapse_spaces True cs)
      else c # collapse_spaces False cs)"

definition trim :: "string \<Rightarrow> string" where
  "trim s = rev (dropWhile is_space (rev (dropWhile is_space s)))"

definition cleanText :: "string \<Rightarrow> string" where
  "cleanText text = (if text = [] then [] else trim (collapse_spaces False text))"

text \<open>All matches of a marker character followed by word characters, without the marker.\<close>

function tagged_words :: "char \<Rightarrow> string \<Rightarrow> string list" where
  "tagged_words marker [] = []"
| "tagged_words marker (c # cs) =
     (if c = marker \<and> takeWhile is_word cs \<noteq> []
      then takeWhile is_word cs # tagged_words marker (dropWhile is_word cs)
      else tagged_words marker cs)"
  by pat_completeness auto
termination
  by (relation "measure (\<lambda>(marker, s). length s)")
    (auto simp: length_dropWhile_le le_imp_less_Suc)

definition extractHashtags :: "string \<Rightarrow> string list" where
  "extractHashtags text = (if text = [] then [] else tagged_words CHR ''#'' text)"

definition extractMentions :: "string \<Rightarrow> string list" where
  "extractMentions text = (if text = [] then [] else tagged_words CHR ''@'' text)"

section \<open>Metadata and the views of a response (types.ts)\<close>

datatype MediaType = Video | Reel | Story | Post

text \<open>
  A time stamp is either text taken from the page or an instant in milliseconds since
  the epoch, which the code prints with \<^verbatim>\<open>toISOString\<close>; the printing is not modelled.
\<close>

datatype timestamp = DateText string | Instant int

text \<open>
  One record for both variants of \<^verbatim>\<open>VideoMetadata\<close>, with the fields the scrapers
  write; an absent field is \<open>None\<close>. Counts are integers and the other numbers are
  rationals, both exact: the rounding of JavaScript's doubles (counts beyond 2^53) is
  not modelled.
\<close>

record VideoMetadata =
  mplatform :: platform
  mediaType :: MediaType
  url :: string
  videoUrl :: "string option"
  thumbnail :: "string option"
  username :: "string option"
  caption :: "string option"
  timestamp :: "timestamp option"
  duration :: "rat option"
  likes :: "int option"
  comments :: "int option"
  views :: "int option"
  isVerified :: "bool option"
  hashtags :: "string list option"
  mentions :: "string list option"
  location :: "string option"
  pageName :: "string option"
  isLive :: "bool option"

definition baseMetadata :: "platform \<Rightarrow> MediaType \<Rightarrow> string \<Rightarrow> VideoMetadata" where
  "baseMetadata p t link =
     \<lparr>mplatform = p, mediaType = t, url = link, videoUrl = None, thumbnail = None,
      username = None, caption = None, timestamp = None, duration = None, likes = None,
      comments = None, views = None, isVerified = None, hashtags = None, mentions = None,
      location = None, pageName = None, isLive = None\<rparr>"

text \<open>
  The scrapers read a response through property chains, regular expressions and
  selectors. A response is modelled by what these probes find in it, each field holding
  a value of the JSON type the code expects, \<open>None\<close> when the probe finds nothing.
\<close>

record api_item =
  media_type :: "int option"
  product_type :: "string option"
  video_versions_url :: "string option"
  video_url :: "string option"
  image_candidate_url :: "string option"
  thumbnail_url :: "string option"
  user_username :: "string option"
  user_is_verified :: "bool option"
  caption_text :: "string option"
  taken_at :: "int option"
  video_duration :: "rat option"
  like_count :: "int option"
  comment_count :: "int option"
  play_count :: "int option"
  view_count :: "int option"

record graphql_media =
  is_video :: bool
  typename :: "string option"
  edge_caption_text :: "string option"
  gql_video_url :: "string option"
  display_url :: "string option"
  owner_username :: "string option"
  owner_is_verified :: "bool option"
  taken_at_timestamp :: "int option"
  gql_video_duration :: "rat option"
  edge_like_count :: "int option"
  edge_comment_count :: "int option"
  video_view_count :: "int option"
  location_name :: "string option"

record api_view =
  items0 :: "api_item option"
  shortcode_media :: "graphql_media option"

record jsonld =
  ld_type :: "string option"
  contentUrl :: "string option"
  thumbnailUrl :: "string option"
  author_alternateName :: "string option"
  author_text :: "string option"
  description :: "string option"
  ld_caption :: "string option"
  uploadDate :: "string option"

record page =
  jsonld_block :: "jsonld option"
  sharedData_media :: "graphql_media option"
  additionalData_media :: "graphql_media option"
  og_video :: "string option"
  og_video_secure_url :: "string option"
  og_description :: "string option"
  og_title :: "string option"
  og_image :: "string option"
  hd_src :: "string option"
  sd_src :: "string option"
  video_src :: "string option"
  playable_url_quality_hd :: "string option"
  twitter_image :: "string option"
  meta_description :: "string option"
  og_site_name :: "string option"
  engagement_count :: "int option"
  playable_duration_in_ms :: "int option"
  is_live_true :: bool
  broadcast_status_live :: bool

text \<open>What a text request sees of a response body: parsed JSON, an HTML document, or neither.\<close>

datatype view = Json api_view | Html page | Opaque

section \<open>The HTTP client\<close>

record request =
  target :: string
  headers :: "(string \<times> string) list"
  timeout_ms :: int
  binary :: bool

text \<open>A response either fails with a message or carries its raw bytes and their view.\<close>

datatype response = Failed string | Ok string view

text \<open>
  The network answers the requests in order from \<open>pending\<close> and records them in
  \<open>sent\<close>; when nothing is pending the request fails.
\<close>

record net =
  pending :: "response list"
  sent :: "request list"

definition client_get :: "request \<Rightarrow> (net, string \<times> view) async" where
  "client_get req w =
     (case pending (state w) of
        [] \<Rightarrow> (Inl (Exn AxiosError ''Network Error'' None),
               w\<lparr>state := (state w)\<lparr>sent := sent (state w) @ [req]\<rparr>\<rparr>)
      | r # rs \<Rightarrow>
          ((case r of
              Failed message \<Rightarrow> Inl (Exn AxiosError message None)
            | Ok raw v \<Rightarrow> Inr (raw, v)),
           w\<lparr>state := \<lparr>pending = rs, sent = sent (state w) @ [req]\<rparr>\<rparr>))"

text \<open>\<^verbatim>\<open>error.message\<close>, which is itself a \<^verbatim>\<open>TypeError\<close> when the thrown value is \<^verbatim>\<open>undefined\<close>.\<close>

definition message_of :: "thrown \<Rightarrow> thrown + string" where
  "message_of e =
     (case e of
        Exn c m p \<Rightarrow> Inr m
      | ThrownUndefined \<Rightarrow>
          Inl (Exn TypeError ''Cannot read properties of undefined (reading 'message')'' None))"

text \<open>\<^verbatim>\<open>a || b\<close> on optional values: an absent value, an empty string and 0 are falsy.\<close>

definition truthy_str :: "string option \<Rightarrow> bool" where
  "truthy_str x = (case x of None \<Rightarrow> False | Some s \<Rightarrow> s \<noteq> [])"

definition or_opt :: "string option \<Rightarrow> string option \<Rightarrow> string option" where
  "or_opt a b = (if truthy_str a then a else b)"

definition or_count :: "int option \<Rightarrow> int option \<Rightarrow> int option" where
  "or_count a b = (case a of None \<Rightarrow> b | Some n \<Rightarrow> if n = 0 then b else a)"

definition or_rat :: "rat option \<Rightarrow> rat \<Rightarrow> rat" where
  "or_rat x d = (case x of None \<Rightarrow> d | Some n \<Rightarrow> if n = 0 then d else n)"

text \<open>
  \<^verbatim>\<open>new Date(seconds * 1000).toISOString()\<close>: a \<^verbatim>\<open>RangeError\<close> outside the range of
  valid dates.
\<close>

definition toISOString :: "int \<Rightarrow> thrown + timestamp" where
  "toISOString ms =
     (if - 8640000000000000 \<le> ms \<and> ms \<le> 8640000000000000 then Inr (Instant ms)
      else Inl (Exn RangeError ''Invalid time value'' None))"

definition date_of_seconds :: "int option \<Rightarrow> thrown + timestamp option" where
  "date_of_seconds t =
     (case t of
        None \<Rightarrow> Inr None
      | Some n \<Rightarrow>
          if n = 0 then Inr None
          else (case toISOString (n * 1000) of Inl e \<Rightarrow> Inl e | Inr d \<Rightarrow> Inr (Some d)))"

section \<open>Instagram scraper\<close>

definition parseAPIResponse :: "api_item \<Rightarrow> string \<Rightarrow> thrown + VideoMetadata" where
  "parseAPIResponse item link =
     (if \<not> (media_type item = Some 2 \<or> product_type item = Some ''clips'') then
        Inl (Exn ParseError ''Post does not contain a video'' (Some Instagram))
      else
        (case date_of_seconds (taken_at item) of
           Inl e \<Rightarrow> Inl e
         | Inr stamp \<Rightarrow>
             Inr ((baseMetadata Instagram
                     (if product_type item = Some ''clips'' then Reel else Video) link)
                  \<lparr>videoUrl := or_opt (video_versions_url item) (video_url item),
                   thumbnail := or_opt (image_candidate_url item) (thumbnail_url item),
                   username := Some (or_str (user_username item) ''unknown''),
                   caption := Some (cleanText (or_str (caption_text item) [])),
                   timestamp := stamp,
                   duration := Some (or_rat (video_duration item) 0),
                   likes := Some (or_num (like_count item) 0),
                   comments := Some (or_num (comment_count item) 0),
                   views := Some (or_num (or_count (play_count item) (view_count item)) 0),
                   isVerified := Some (user_is_verified item = Some True),
                   hashtags := Some (extractHashtags (or_str (caption_text item) [])),
                   mentions := Some (extractMentions (or_str (caption_text item) []))\<rparr>)))"

definition parseGraphQLResponse :: "graphql_media \<Rightarrow> string \<Rightarrow> thrown + VideoMetadata" where
  "parseGraphQLResponse media link =
     (if \<not> is_video media then
        Inl (Exn ParseError ''Post does not contain a video'' (Some Instagram))
      else
        (case date_of_seconds (taken_at_timestamp media) of
           Inl e \<Rightarrow> Inl e
         | Inr stamp \<Rightarrow>
             Inr ((baseMetadata Instagram
                     (if typename media = Some ''GraphVideo'' then Video else Reel) link)
                  \<lparr>videoUrl := gql_video_url media,
                   thumbnail := display_url media,
                   username := Some (or_str (owner_username media) ''unknown''),
                   caption := Some (cleanText (or_str (edge_caption_text media) [])),
                   timestamp := stamp,
                   duration := Some (or_rat (gql_video_duration media) 0),
                   likes := Some (or_num (edge_like_count media) 0),
                   comments := Some (or_num (edge_comment_count media) 0),
                   views := Some (or_num (video_view_count media) 0),
                   isVerified := Some (owner_is_verified media = Some True),
                   hashtags := Some (extractHashtags (or_str (edge_caption_text media) [])),
                   mentions := Some (extractMentions (or_str (edge_caption_text media) [])),
                   location := location_name media\<rparr>)))"

text \<open>
  The three extractors read the document of the page. Each has its own \<^verbatim>\<open>try\<close> and
  answers \<^verbatim>\<open>null\<close> (\<open>None\<close>) for whatever is thrown inside; a body that is not text
  makes the first probe throw.
\<close>

definition extractFromJSONLD :: "view \<Rightarrow> string \<Rightarrow> VideoMetadata option" where
  "extractFromJSONLD html link =
     (case html of
        Html doc \<Rightarrow>
          (case jsonld_block doc of
             None \<Rightarrow> None
           | Some d \<Rightarrow>
               if ld_type d \<noteq> Some ''VideoObject'' then None
               else Some ((baseMetadata Instagram Video link)
                 \<lparr>videoUrl := contentUrl d,
                  thumbnail := thumbnailUrl d,
                  username := Some (or_str (or_opt (author_alternateName d) (author_text d)) ''unknown''),
                  caption := Some (cleanText (or_str (or_opt (description d) (ld_caption d)) [])),
                  timestamp := map_option DateText (uploadDate d),
                  duration := Some 0,
                  hashtags := Some (extractHashtags (or_str (description d) [])),
                  mentions := Some (extractMentions (or_str (description d) []))\<rparr>))
      | _ \<Rightarrow> None)"

definition extractFromScripts :: "view \<Rightarrow> string \<Rightarrow> VideoMetadata option" where
  "extractFromScripts html link =
     (case html of
        Html doc \<Rightarrow>
          (case (case sharedData_media doc of
                   None \<Rightarrow> None
                 | Some media \<Rightarrow> if is_video media then Some (parseGraphQLResponse media link) else None)
           of
             Some (Inr m) \<Rightarrow> Some m
           | Some (Inl e) \<Rightarrow> None
           | None \<Rightarrow>
               (case additionalData_media doc of
                  None \<Rightarrow> None
                | Some media \<Rightarrow>
                    if is_video media then
                      (case parseGraphQLResponse media link of Inl e \<Rightarrow> None | Inr m \<Rightarrow> Some m)
                    else None))
      | _ \<Rightarrow> None)"

text \<open>The text before the first bullet (U+2022, three bytes in UTF-8).\<close>

fun before_bullet :: "string \<Rightarrow> string" where
  "before_bullet [] = []"
| "before_bullet (c # cs) =
     (if startsWith (c # cs) [CHR 0xE2, CHR 0x80, CHR 0xA2] then [] else c # before_bullet cs)"

definition extractFromMetaTags :: "view \<Rightarrow> string \<Rightarrow> VideoMetadata option" where
  "extractFromMetaTags html link =
     (case html of
        Html doc \<Rightarrow>
          (if \<not> truthy_str (or_opt (og_video doc) (og_video_secure_url doc)) then None
           else Some ((baseMetadata Instagram Video link)
             \<lparr>videoUrl := or_opt (og_video doc) (og_video_secure_url doc),
              thumbnail := Some (or_str (og_image doc) []),
              username := Some (or_str (map_option (\<lambda>t. trim (before_bullet t)) (og_title doc)) ''unknown''),
              caption := Some (cleanText (or_str (og_description doc) [])),
              hashtags := Some (extractHashtags (or_str (og_description doc) [])),
              mentions := Some (extractMentions (or_str (og_description doc) []))\<rparr>))
      | _ \<Rightarrow> None)"

definition instagram_api_request :: "RequiredConfig \<Rightarrow> string \<Rightarrow> request" where
  "instagram_api_request cfg link =
     \<lparr>target = link @ ''?__a=1&__d=dis'',
      headers = [(''User-Agent'', userAgent cfg), (''X-Requested-With'', ''XMLHttpRequest''),
                 (''Referer'', ''https://www.instagram.com/'')],
      timeout_ms = timeout cfg, binary = False\<rparr>"

definition page_request :: "RequiredConfig \<Rightarrow> string \<Rightarrow> request" where
  "page_request cfg link =
     \<lparr>target = link, headers = [(''User-Agent'', userAgent cfg)],
      timeout_ms = timeout cfg, binary = False\<rparr>"

definition binary_request :: "RequiredConfig \<Rightarrow> string \<Rightarrow> request" where
  "binary_request cfg link =
     \<lparr>target = link, headers = [(''User-Agent'', userAgent cfg)],
      timeout_ms = 30000, binary = True\<rparr>"

text \<open>Method 1: the body of the \<^verbatim>\<open>try\<close>, then the \<^verbatim>\<open>catch\<close> that answers \<^verbatim>\<open>null\<close>.\<close>

definition Instagram_scrapeWithAPI_try ::
  "RequiredConfig \<Rightarrow> string \<Rightarrow> (net, VideoMetadata option) async" where
  "Instagram_scrapeWithAPI_try cfg link w =
     (case client_get (instagram_api_request cfg link) w of
        (Inl e, w') \<Rightarrow> (Inl e, w')
      | (Inr (raw, v), w') \<Rightarrow>
          ((case v of
              Json d \<Rightarrow>
                (case items0 d of
                   Some item \<Rightarrow> map_sum id Some (parseAPIResponse item link)
                 | None \<Rightarrow>
                     (case shortcode_media d of
                        Some media \<Rightarrow> map_sum id Some (parseGraphQLResponse media link)
                      | None \<Rightarrow> Inr None))
            | _ \<Rightarrow> Inr None),
           w'))"

definition Instagram_scrapeWithAPI ::
  "RequiredConfig \<Rightarrow> string \<Rightarrow> (net, VideoMetadata option) async" where
  "Instagram_scrapeWithAPI cfg link w =
     (case Instagram_scrapeWithAPI_try cfg link w of
        (Inl error, w') \<Rightarrow> (Inr None, w')
      | (Inr result, w') \<Rightarrow> (Inr result, w'))"

text \<open>
  Method 2: one request for the page, then the three extractors in order. The
  \<^verbatim>\<open>catch\<close> rethrows whatever was thrown as a \<^verbatim>\<open>NetworkError\<close>.
\<close>

definition Instagram_scrapeWithHTML_try ::
  "RequiredConfig \<Rightarrow> string \<Rightarrow> (net, VideoMetadata option) async" where
  "Instagram_scrapeWithHTML_try cfg link w =
     (case client_get (page_request cfg link) w of
        (Inl e, w') \<Rightarrow> (Inl e, w')
      | (Inr (raw, html), w') \<Rightarrow>
          (Inr (case extractFromJSONLD html link of
                  Some jsonLdData \<Rightarrow> Some jsonLdData
                | None \<Rightarrow>
                    (case extractFromScripts html link of
                       Some scriptData \<Rightarrow> Some scriptData
                     | None \<Rightarrow> extractFromMetaTags html link)),
           w'))"

definition Instagram_scrapeWithHTML ::
  "RequiredConfig \<Rightarrow> string \<Rightarrow> (net, VideoMetadata option) async" where
  "Instagram_scrapeWithHTML cfg link w =
     (case Instagram_scrapeWithHTML_try cfg link w of
        (Inl error, w') \<Rightarrow>
          ((case message_of error of
              Inl e \<Rightarrow> Inl e
            | Inr m \<Rightarrow> Inl (Exn NetworkError (''Failed to fetch HTML: '' @ m) (Some Instagram))),
           w')
      | (Inr result, w') \<Rightarrow> (Inr result, w'))"

text \<open>The operation that \<^verbatim>\<open>scrape\<close> hands to \<^verbatim>\<open>retry\<close>.\<close>

definition Instagram_attempt :: "RequiredConfig \<Rightarrow> string \<Rightarrow> (net, VideoMetadata) async" where
  "Instagram_attempt cfg link w =
     (case Instagram_scrapeWithAPI cfg link w of
        (Inl e, w1) \<Rightarrow> (Inl e, w1)
      | (Inr (Some result), w1) \<Rightarrow> (Inr result, w1)
      | (Inr None, w1) \<Rightarrow>
          (case Instagram_scrapeWithHTML cfg link w1 of
             (Inl e, w2) \<Rightarrow> (Inl e, w2)
           | (Inr (Some result), w2) \<Rightarrow> (Inr result, w2)
           | (Inr None, w2) \<Rightarrow>
               (Inl (Exn ParseError ''Could not extract video metadata'' (Some Instagram)), w2)))"

definition Instagram_scrape :: "RequiredConfig \<Rightarrow> string \<Rightarrow> (net, VideoMetadata) async" where
  "Instagram_scrape cfg link w =
     (if \<not> truthy_str (extractInstagramShortcode link) then
        (Inl (Exn ParseError ''Could not extract shortcode from URL'' (Some Instagram)), w)
      else retry (Instagram_attempt cfg link) (retries cfg) (retryDelay cfg) w)"

text \<open>
  The download of a scraper: resolve the metadata again, then fetch the bytes; a failure
  of the fetch is rethrown as a \<^verbatim>\<open>NetworkError\<close>.
\<close>

definition fetch_video ::
  "platform \<Rightarrow> RequiredConfig \<Rightarrow> VideoMetadata \<Rightarrow> (net, string) async" where
  "fetch_video p cfg m w =
     (if \<not> truthy_str (videoUrl m) then
        (Inl (Exn ParseError ''Video URL not found'' (Some p)), w)
      else
        (case client_get (binary_request cfg (the (videoUrl m))) w of
           (Inl error, w') \<Rightarrow>
             ((case message_of error of
                 Inl e \<Rightarrow> Inl e
               | Inr msg \<Rightarrow> Inl (Exn NetworkError (''Failed to download video: '' @ msg) (Some p))),
              w')
         | (Inr (raw, v), w') \<Rightarrow> (Inr raw, w')))"

definition Instagram_download :: "RequiredConfig \<Rightarrow> string \<Rightarrow> (net, string) async" where
  "Instagram_download cfg link w =
     (case Instagram_scrape cfg link w of
        (Inl e, w') \<Rightarrow> (Inl e, w')
      | (Inr m, w') \<Rightarrow> fetch_video Instagram cfg m w')"

section \<open>Facebook scraper\<close>

text \<open>\<^verbatim>\<open>s.replace(/\\\//g, '/')\<close>: every backslash-slash pair becomes a slash.\<close>

fun unescape_slashes :: "string \<Rightarrow> string" where
  "unescape_slashes (a # b # cs) =
     (if a = CHR 0x5C \<and> b = CHR ''/'' then CHR ''/'' # unescape_slashes cs
      else a # unescape_slashes (b # cs))"
| "unescape_slashes cs = cs"

text \<open>\<^verbatim>\<open>s.replace(old, new)\<close> with a string pattern: the first occurrence only.\<close>

fun replace_first :: "string \<Rightarrow> string \<Rightarrow> string \<Rightarrow> string" where
  "replace_first old new [] = (if old = [] then new else [])"
| "replace_first old new (c # cs) =
     (if startsWith (c # cs) old then new @ drop (length old) (c # cs)
      else c # replace_first old new cs)"

definition extractVideoURL :: "page \<Rightarrow> string option" where
  "extractVideoURL doc =
     (case hd_src doc of
        Some m \<Rightarrow> Some (unescape_slashes m)
      | None \<Rightarrow>
          (case sd_src doc of
             Some m \<Rightarrow> Some (unescape_slashes m)
           | None \<Rightarrow>
               if truthy_str (or_opt (og_video doc) (og_video_secure_url doc))
               then or_opt (og_video doc) (og_video_secure_url doc)
               else if truthy_str (video_src doc) then video_src doc
               else (case playable_url_quality_hd doc of
                       Some m \<Rightarrow> Some (unescape_slashes m)
                     | None \<Rightarrow> None)))"

text \<open>The fields that \<^verbatim>\<open>extractMetadataFromHTML\<close> sets, spread over the result.\<close>

definition extractMetadataFromHTML :: "page \<Rightarrow> VideoMetadata \<Rightarrow> VideoMetadata" where
  "extractMetadataFromHTML doc m =
     m\<lparr>thumbnail := or_opt (og_image doc) (twitter_image doc),
       caption := Some (if cleanText (or_str (og_description doc) []) \<noteq> []
                        then cleanText (or_str (og_description doc) [])
                        else cleanText (or_str (meta_description doc) [])),
       pageName := or_opt (og_site_name doc) (og_title doc),
       likes := (case engagement_count doc of None \<Rightarrow> likes m | Some n \<Rightarrow> Some n),
       duration := (case playable_duration_in_ms doc of
                      None \<Rightarrow> duration m
                    | Some ms \<Rightarrow> Some (of_int ms / 1000)),
       isLive := Some (is_live_true doc \<or> broadcast_status_live doc)\<rparr>"

definition facebook_result :: "view \<Rightarrow> string \<Rightarrow> VideoMetadata option" where
  "facebook_result html link =
     (case html of
        Html doc \<Rightarrow>
          (if \<not> truthy_str (extractVideoURL doc) then None
           else Some (extractMetadataFromHTML doc
                  ((baseMetadata Facebook Video link)\<lparr>videoUrl := extractVideoURL doc\<rparr>)))
      | _ \<Rightarrow> None)"

definition facebook_page_request :: "RequiredConfig \<Rightarrow> string \<Rightarrow> request" where
  "facebook_page_request cfg link =
     \<lparr>target = link, headers = [(''User-Agent'', userAgent cfg), (''Cookie'', cookies cfg)],
      timeout_ms = timeout cfg, binary = False\<rparr>"

definition mobileUserAgent :: string where
  "mobileUserAgent = ''Mozilla/5.0 (iPhone; CPU iPhone OS 14_0 like Mac OS X) AppleWebKit/605.1.15 (KHTML, like Gecko) Version/14.0 Mobile/15E148 Safari/604.1''"

definition facebook_mobile_request :: "RequiredConfig \<Rightarrow> string \<Rightarrow> request" where
  "facebook_mobile_request cfg link =
     \<lparr>target = replace_first ''www.facebook.com'' ''m.facebook.com'' link,
      headers = [(''User-Agent'', mobileUserAgent)],
      timeout_ms = timeout cfg, binary = False\<rparr>"

text \<open>Methods 1 and 2: every exception inside the \<^verbatim>\<open>try\<close> becomes \<^verbatim>\<open>null\<close>.\<close>

definition Facebook_scrapeWithHTML ::
  "RequiredConfig \<Rightarrow> string \<Rightarrow> (net, VideoMetadata option) async" where
  "Facebook_scrapeWithHTML cfg link w =
     (case client_get (facebook_page_request cfg link) w of
        (Inl error, w') \<Rightarrow> (Inr None, w')
      | (Inr (raw, html), w') \<Rightarrow> (Inr (facebook_result html link), w'))"

definition Facebook_scrapeWithMobileSite ::
  "RequiredConfig \<Rightarrow> string \<Rightarrow> (net, VideoMetadata option) async" where
  "Facebook_scrapeWithMobileSite cfg link w =
     (case client_get (facebook_mobile_request cfg link) w of
        (Inl error, w') \<Rightarrow> (Inr None, w')
      | (Inr (raw, html), w') \<Rightarrow> (Inr (facebook_result html link), w'))"

definition Facebook_scrapeWithGraphAPI :: "string \<Rightarrow> (net, VideoMetadata option) async" where
  "Facebook_scrapeWithGraphAPI videoId w = (Inr None, w)"

definition Facebook_attempt ::
  "RequiredConfig \<Rightarrow> string \<Rightarrow> string \<Rightarrow> (net, VideoMetadata) async" where
  "Facebook_attempt cfg link videoId w =
     (case Facebook_scrapeWithHTML cfg link w of
        (Inl e, w1) \<Rightarrow> (Inl e, w1)
      | (Inr (Some result), w1) \<Rightarrow> (Inr result, w1)
      | (Inr None, w1) \<Rightarrow>
          (case Facebook_scrapeWithMobileSite cfg link w1 of
             (Inl e, w2) \<Rightarrow> (Inl e, w2)
           | (Inr (Some result), w2) \<Rightarrow> (Inr result, w2)
           | (Inr None, w2) \<Rightarrow>
               (case Facebook_scrapeWithGraphAPI videoId w2 of
                  (Inl e, w3) \<Rightarrow> (Inl e, w3)
                | (Inr (Some result), w3) \<Rightarrow> (Inr result, w3)
                | (Inr None, w3) \<Rightarrow>
                    (Inl (Exn ParseError ''Could not extract video metadata'' (Some Facebook)),
                     w3))))"

definition Facebook_scrape :: "RequiredConfig \<Rightarrow> string \<Rightarrow> (net, VideoMetadata) async" where
  "Facebook_scrape cfg link w =
     (case extractFacebookVideoId link of
        None \<Rightarrow> (Inl (Exn ParseError ''Could not extract video ID from URL'' (Some Facebook)), w)
      | Some videoId \<Rightarrow>
          if videoId = [] then
            (Inl (Exn ParseError ''Could not extract video ID from URL'' (Some Facebook)), w)
          else retry (Facebook_attempt cfg link videoId) (retries cfg) (retryDelay cfg) w)"

definition Facebook_download :: "RequiredConfig \<Rightarrow> string \<Rightarrow> (net, string) async" where
  "Facebook_download cfg link w =
     (case Facebook_scrape cfg link w of
        (Inl e, w') \<Rightarrow> (Inl e, w')
      | (Inr m, w') \<Rightarrow> fetch_video Facebook cfg m w')"

section \<open>Scraper facade\<close>

record SocialMediaScraper =
  instagramScraper :: RequiredConfig
  facebookScraper :: RequiredConfig

definition new_SocialMediaScraper :: "ScraperConfig \<Rightarrow> SocialMediaScraper" where
  "new_SocialMediaScraper config =
     \<lparr>instagramScraper = InstagramScraper_config config,
      facebookScraper = FacebookScraper_config config\<rparr>"

record DownloadResult =
  success :: bool
  metadata :: "VideoMetadata option"
  buffer :: "string option"
  error :: "string option"

definition getMetadata :: "SocialMediaScraper \<Rightarrow> jsarg \<Rightarrow> (net, VideoMetadata) async" where
  "getMetadata this arg w =
     (case validateURL arg of
        Inl e \<Rightarrow> (Inl e, w)
      | Inr v \<Rightarrow>
          (case platform v of
             Instagram \<Rightarrow> Instagram_scrape (instagramScraper this) (normalizedUrl v) w
           | Facebook \<Rightarrow> Facebook_scrape (facebookScraper this) (normalizedUrl v) w))"

text \<open>The body of the \<^verbatim>\<open>try\<close> of \<^verbatim>\<open>download\<close>: metadata and bytes.\<close>

definition download_try ::
  "SocialMediaScraper \<Rightarrow> jsarg \<Rightarrow> (net, VideoMetadata \<times> string) async" where
  "download_try this arg w =
     (case validateURL arg of
        Inl e \<Rightarrow> (Inl e, w)
      | Inr v \<Rightarrow>
          (case platform v of
             Instagram \<Rightarrow>
               (case Instagram_scrape (instagramScraper this) (normalizedUrl v) w of
                  (Inl e, w1) \<Rightarrow> (Inl e, w1)
                | (Inr m, w1) \<Rightarrow>
                    (case Instagram_download (instagramScraper this) (normalizedUrl v) w1 of
                       (Inl e, w2) \<Rightarrow> (Inl e, w2)
                     | (Inr b, w2) \<Rightarrow> (Inr (m, b), w2)))
           | Facebook \<Rightarrow>
               (case Facebook_scrape (facebookScraper this) (normalizedUrl v) w of
                  (Inl e, w1) \<Rightarrow> (Inl e, w1)
                | (Inr m, w1) \<Rightarrow>
                    (case Facebook_download (facebookScraper this) (normalizedUrl v) w1 of
                       (Inl e, w2) \<Rightarrow> (Inl e, w2)
                     | (Inr b, w2) \<Rightarrow> (Inr (m, b), w2)))))"

text \<open>
  \<^verbatim>\<open>download\<close>: the \<^verbatim>\<open>catch\<close> builds the failure result from \<^verbatim>\<open>error.message\<close>.
  The options are accepted and not read.
\<close>

definition download :: "SocialMediaScraper \<Rightarrow> jsarg \<Rightarrow> 'o \<Rightarrow> (net, DownloadResult) async" where
  "download this arg options w =
     (case download_try this arg w of
        (Inr (m, b), w') \<Rightarrow>
          (Inr \<lparr>success = True, metadata = Some m, buffer = Some b, error = None\<rparr>, w')
      | (Inl err, w') \<Rightarrow>
          ((case message_of err of
              Inl e \<Rightarrow> Inl e
            | Inr msg \<Rightarrow>
                Inr \<lparr>success = False, metadata = None, buffer = None, error = Some msg\<rparr>),
           w'))"

definition getVideoURL :: "SocialMediaScraper \<Rightarrow> jsarg \<Rightarrow> (net, string) async" where
  "getVideoURL this arg w =
     (case getMetadata this arg w of
        (Inl e, w') \<Rightarrow> (Inl e, w')
      | (Inr m, w') \<Rightarrow>
          if \<not> truthy_str (videoUrl m) then (Inl (Exn PlainError ''Video URL not found'' None), w')
          else (Inr (the (videoUrl m)), w'))"

section \<open>Sample responses\<close>

text \<open>Responses in which no probe finds anything; concrete inputs are built from them.\<close>

definition emptyItem :: api_item where
  "emptyItem =
     \<lparr>media_type = None, product_type = None, video_versions_url = None, video_url = None,
      image_candidate_url = None, thumbnail_url = None, user_username = None,
      user_is_verified = None, caption_text = None, taken_at = None, video_duration = None,
      like_count = None, comment_count = None, play_count = None, view_count = None\<rparr>"

definition emptyMedia :: graphql_media where
  "emptyMedia =
     \<lparr>is_video = False, typename = None, edge_caption_text = None, gql_video_url = None,
      display_url = None, owner_username = None, owner_is_verified = None,
      taken_at_timestamp = None, gql_video_duration = None, edge_like_count = None,
      edge_comment_count = None, video_view_count = None, location_name = None\<rparr>"

definition emptyPage :: page where
  "emptyPage =
     \<lparr>jsonld_block = None, sharedData_media = None, additionalData_media = None,
      og_video = None, og_video_secure_url = None, og_description = None, og_title = None,
      og_image = None, hd_src = None, sd_src = None, video_src = None,
      playable_url_quality_hd = None, twitter_image = None, meta_description = None,
      og_site_name = None, engagement_count = None, playable_duration_in_ms = None,
      is_live_true = False, broadcast_status_live = False\<rparr>"

text \<open>A world in which the given responses are pending and nothing has happened yet.\<close>

definition fresh :: "response list \<Rightarrow> net world" where
  "fresh rs = \<lparr>state = \<lparr>pending = rs, sent = []\<rparr>, slept = []\<rparr>"

text \<open>
  An operation that fails twice, with different messages, and then returns: three
  attempts reach the value, two attempts throw the second failure, no attempt throws
  \<^verbatim>\<open>undefined\<close>.
\<close>

definition flaky :: "nat \<Rightarrow> thrown + string" where
  "flaky j =
     (if j = 0 then Inl (Exn NetworkError ''first'' None)
      else if j = 1 then Inl (Exn ParseError ''second'' (Some Instagram))
      else Inr ''done'')"

text \<open>An image post as the API-style endpoint and as the GraphQL form describe it.\<close>

definition imageItem :: api_item where
  "imageItem = emptyItem\<lparr>media_type := Some 1, product_type := Some ''feed''\<rparr>"

definition imageMedia :: graphql_media where
  "imageMedia = emptyMedia\<lparr>is_video := False, typename := Some ''GraphImage''\<rparr>"

text \<open>A page whose only signal is an Open Graph video tag.\<close>

definition ogVideoPage :: page where
  "ogVideoPage = emptyPage\<lparr>og_video := Some ''https://cdn.example/x.mp4''\<rparr>"

definition defaultConfig :: RequiredConfig where
  "defaultConfig = InstagramScraper_config emptyConfig"

section \<open>Facts about the string primitives\<close>

lemma startsWith_iff: "startsWith s p \<longleftrightarrow> (\<exists>t. s = p @ t)"
  by (induction s p rule: startsWith.induct) auto

lemma str_includes_iff: "str_includes s p \<longleftrightarrow> (\<exists>a b. s = a @ p @ b)"
proof (induction s)
  case Nil
  then show ?case by auto
next
  case (Cons c cs)
  show ?case
  proof
    assume "str_includes (c # cs) p"
    then consider "startsWith (c # cs) p" | "str_includes cs p" by auto
    then show "\<exists>a b. c # cs = a @ p @ b"
    proof cases
      case 1
      then obtain t where "c # cs = p @ t" by (auto simp: startsWith_iff)
      then have "c # cs = [] @ p @ t" by simp
      then show ?thesis by blast
    next
      case 2
      with Cons.IH obtain a b where "cs = a @ p @ b" by blast
      then have "c # cs = (c # a) @ p @ b" by simp
      then show ?thesis by blast
    qed
  next
    assume "\<exists>a b. c # cs = a @ p @ b"
    then obtain a b where ab: "c # cs = a @ p @ b" by blast
    show "str_includes (c # cs) p"
    proof (cases a)
      case Nil
      with ab have "startsWith (c # cs) p" by (auto simp: startsWith_iff)
      then show ?thesis by simp
    next
      case (Cons x xs)
      with ab have "cs = xs @ p @ b" by simp
      with Cons.IH have "str_includes cs p" by blast
      then show ?thesis by simp
    qed
  qed
qed

lemma str_includes_set: "str_includes s p \<Longrightarrow> set p \<subseteq> set s"
  by (auto simp: str_includes_iff)




lemma takeWhile_all: "\<forall>x\<in>set xs. P x \<Longrightarrow> takeWhile P xs = xs"
  by (induction xs) auto







section \<open>Facts about the URL constructor\<close>























section \<open>The URL classifier\<close>









text \<open>What the classifier does on every argument.\<close>

lemma validateURL_not_a_string:
  "validateURL NotAString = Inl (Exn URLError ''URL must be a non-empty string'' None)"
  "validateURL (Str []) = Inl (Exn URLError ''URL must be a non-empty string'' None)"
  by (simp_all add: validateURL_def)

lemma validateURL_instagram:
  assumes "str_includes (toLowerCase u) ''instagram.com''"
  shows "validateURL (Str u) = Inr \<lparr>platform = Instagram, normalizedUrl = normalizeInstagramURL u\<rparr>"
proof -
  have "u \<noteq> []" using assms by (auto simp: toLowerCase_def)
  with assms show ?thesis by (simp add: validateURL_def)
qed

lemma validateURL_facebook:
  assumes "\<not> str_includes (toLowerCase u) ''instagram.com''"
    and "str_includes (toLowerCase u) ''facebook.com'' \<or> str_includes (toLowerCase u) ''fb.com''
         \<or> str_includes (toLowerCase u) ''fb.watch''"
  shows "validateURL (Str u) =
     (if str_includes u ''fb.watch'' \<or> js_new_URL u \<noteq> None
      then Inr \<lparr>platform = Facebook, normalizedUrl = projr (normalizeFacebookURL u)\<rparr>
      else Inl (Exn TypeError ''Invalid URL'' None))"
proof -
  have "u \<noteq> []" using assms(2) by (auto simp: toLowerCase_def)
  with assms show ?thesis
    by (auto simp: validateURL_def normalizeFacebookURL_def split: option.splits)
qed

lemma validateURL_unsupported:
  assumes "\<not> str_includes (toLowerCase u) ''instagram.com''"
    and "\<not> str_includes (toLowerCase u) ''facebook.com''"
    and "\<not> str_includes (toLowerCase u) ''fb.com''"
    and "\<not> str_includes (toLowerCase u) ''fb.watch''"
  shows "\<exists>msg. validateURL (Str u) = Inl (Exn URLError msg None)"
  using assms by (simp add: validateURL_def)

text \<open>
  Claim C3. The classifier is claimed to return \<open>facebook\<close> for every string that contains
  \<open>facebook.com\<close>, \<open>fb.com\<close> or \<open>fb.watch\<close> (and not \<open>instagram.com\<close>), and to fail
  with a \<open>URLError\<close> and nothing else on the other strings. The string
  \<open>facebook.com/watch?v=1\<close> contains \<open>facebook.com\<close> and has no scheme: the Facebook
  normalisation hands it to the URL constructor, whose \<open>TypeError\<close> leaves
  \<open>validateURL\<close> uncaught. The result is neither the platform \<open>facebook\<close> nor a
  \<open>URLError\<close>.
\<close>

theorem validateURL_schemeless_facebook:
  "str_includes (toLowerCase ''facebook.com/watch?v=1'') ''facebook.com''
   \<and> \<not> str_includes (toLowerCase ''facebook.com/watch?v=1'') ''instagram.com''
   \<and> validateURL (Str ''facebook.com/watch?v=1'') = Inl (Exn TypeError ''Invalid URL'' None)"
  by code_simp

text \<open>
  Claim C8. The two examples of the specification: the Facebook watch URL with an extra
  query parameter normalises to the canonical watch URL of its video id, and the
  Instagram post URL loses its query and gains the trailing slash. Both are stated for
  the classifier and for the normalisation function itself.
\<close>

theorem normalize_examples:
  "validateURL (Str ''https://www.facebook.com/watch/?v=12345&foo=bar'')
     = Inr \<lparr>platform = Facebook, normalizedUrl = ''https://www.facebook.com/watch/?v=12345''\<rparr>
   \<and> normalizeFacebookURL ''https://www.facebook.com/watch/?v=12345&foo=bar''
     = Inr ''https://www.facebook.com/watch/?v=12345''
   \<and> validateURL (Str ''https://www.instagram.com/p/ABC123?igshid=xyz'')
     = Inr \<lparr>platform = Instagram, normalizedUrl = ''https://www.instagram.com/p/ABC123/''\<rparr>
   \<and> normalizeInstagramURL ''https://www.instagram.com/p/ABC123?igshid=xyz''
     = ''https://www.instagram.com/p/ABC123/''"
  by code_simp




text \<open>
  Claim C9. \<open>isSupported\<close> returns a boolean for every argument, string or not, and
  never throws: \<open>true\<close> exactly when the classifier returns, \<open>false\<close> for every
  exception of the classifier, whatever its class.
\<close>

theorem isSupported_iff: "isSupported arg = Inr (\<not> isl (validateURL arg))"
  by (cases "validateURL arg") (simp_all add: isSupported_def)

section \<open>The retry wrapper\<close>

lemma retry_loop_unfold:
  "retry_loop fn n delay i lastError w =
     (if i < n then
        (case fn w of
           (Inr v, w') \<Rightarrow> (Inr v, w')
         | (Inl e, w') \<Rightarrow>
             retry_loop fn n delay (i + 1) e
               (if i < n - 1 then sleep (delay * (i + 1)) w' else w'))
      else (Inl lastError, w))"
  by (rule retry_loop.simps)

declare retry_loop.simps [simp del]

lemma backoff_step: "i < j \<Longrightarrow> backoff d i j = (d * (int i + 1)) # backoff d (Suc i) j"
  by (simp add: backoff_def upt_conv_Cons)

lemma backoff_empty [simp]: "backoff d i i = []"
  by (simp add: backoff_def)

lemma retry_loop_succeeds:
  assumes "\<forall>j. i \<le> j \<and> j < k \<longrightarrow> isl (outcome j)"
    and "outcome k = Inr v" and "i \<le> k" and "int k < n"
  shows "retry_loop (scripted outcome) n delay (int i) lastError \<lparr>state = i, slept = S\<rparr>
         = (Inr v, \<lparr>state = Suc k, slept = S @ backoff delay i k\<rparr>)"
  using assms
proof (induction "k - i" arbitrary: i lastError S)
  case 0
  then have "i = k" by simp
  with "0.prems" show ?case
    by (subst retry_loop_unfold) (simp add: scripted_def)
next
  case (Suc d)
  then have lt: "i < k" by simp
  with Suc.prems obtain e where e: "outcome i = Inl e"
    by (metis isl_def le_refl)
  have sl: "int i < n - 1" using lt Suc.prems by simp
  have IH: "retry_loop (scripted outcome) n delay (int (Suc i)) e
              \<lparr>state = Suc i, slept = S @ [delay * (int i + 1)]\<rparr>
            = (Inr v, \<lparr>state = Suc k,
                       slept = (S @ [delay * (int i + 1)]) @ backoff delay (Suc i) k\<rparr>)"
    using Suc.hyps Suc.prems lt by (intro Suc.hyps(1)) auto
  show ?case
    using lt Suc.prems e sl IH
    by (subst retry_loop_unfold) (simp add: scripted_def sleep_def backoff_step add.commute)
qed

lemma retry_loop_exhausts:
  assumes "\<forall>j. i \<le> j \<and> j < m \<longrightarrow> isl (outcome j)" and "i < m"
  shows "retry_loop (scripted outcome) (int m) delay (int i) lastError \<lparr>state = i, slept = S\<rparr>
         = (Inl (projl (outcome (m - 1))),
            \<lparr>state = m, slept = S @ backoff delay i (m - 1)\<rparr>)"
  using assms
proof (induction "m - i" arbitrary: i lastError S)
  case 0
  then show ?case by simp
next
  case (Suc d)
  from Suc.prems obtain e where e: "outcome i = Inl e"
    by (metis isl_def le_refl)
  show ?case
  proof (cases "Suc i = m")
    case True
    then have "retry_loop (scripted outcome) (int m) delay (int i + 1) e
                 \<lparr>state = Suc i, slept = S\<rparr>
               = (Inl e, \<lparr>state = Suc i, slept = S\<rparr>)"
      by (subst retry_loop_unfold) simp
    with True e show ?thesis
      by (subst retry_loop_unfold) (auto simp add: scripted_def)
  next
    case False
    with Suc.prems have lt: "Suc i < m" by simp
    have IH: "retry_loop (scripted outcome) (int m) delay (int (Suc i)) e
                \<lparr>state = Suc i, slept = S @ [delay * (int i + 1)]\<rparr>
              = (Inl (projl (outcome (m - 1))),
                 \<lparr>state = m,
                  slept = (S @ [delay * (int i + 1)]) @ backoff delay (Suc i) (m - 1)\<rparr>)"
      using Suc.hyps Suc.prems lt by (intro Suc.hyps(1)) auto
    have bs: "backoff delay i (m - 1) = (delay * (int i + 1)) # backoff delay (Suc i) (m - 1)"
      using lt by (intro backoff_step) simp
    show ?thesis
      using lt e IH bs
      by (subst retry_loop_unfold) (simp add: scripted_def sleep_def add.commute)
  qed
qed

lemma retry_no_attempts:
  "n \<le> 0 \<Longrightarrow> retry fn n delay w = (Inl ThrownUndefined, w)"
  unfolding retry_def by (subst retry_loop_unfold) simp

text \<open>What \<^verbatim>\<open>retry\<close> throws is what its last run of the operation threw.\<close>

lemma retry_loop_error:
  assumes "\<And>w e w'. fn w = (Inl e, w') \<Longrightarrow> P e" and "P lastError"
    and "retry_loop fn n delay i lastError w = (Inl e, w')"
  shows "P e"
  using assms(2,3)
proof (induction "nat (n - i)" arbitrary: i lastError w)
  case 0
  then have "\<not> i < n" by simp
  with "0.prems" show ?case by (subst (asm) retry_loop_unfold) simp
next
  case (Suc d)
  then have lt: "i < n" by simp
  obtain r w1 where f: "fn w = (r, w1)" by force
  show ?case
  proof (cases r)
    case (Inr v)
    with lt f Suc.prems show ?thesis by (subst (asm) retry_loop_unfold) simp
  next
    case (Inl err)
    have p: "P err" using assms(1) [of w err w1] f Inl by simp
    let ?w = "if i < n - 1 then sleep (delay * (i + 1)) w1 else w1"
    have r: "retry_loop fn n delay (i + 1) err ?w = (Inl e, w')"
      using Suc.prems(2) lt f Inl by (subst (asm) retry_loop_unfold) simp
    have d: "d = nat (n - (i + 1))" using Suc.hyps(2) by simp
    show ?thesis using Suc.hyps(1) [OF d p r] .
  qed
qed

lemma retry_error:
  assumes "\<And>w e w'. fn w = (Inl e, w') \<Longrightarrow> P e" and "0 < n"
    and "retry fn n delay w = (Inl e, w')"
  shows "P e"
proof -
  obtain r w1 where f: "fn w = (r, w1)" by force
  show ?thesis
  proof (cases r)
    case (Inr v)
    with f assms(2,3) show ?thesis
      unfolding retry_def by (subst (asm) retry_loop_unfold) simp
  next
    case (Inl err)
    have p: "P err" using assms(1) [of w err w1] f Inl by simp
    let ?w = "if 0 < n - 1 then sleep (delay * (0 + 1)) w1 else w1"
    have "retry_loop fn n delay (0 + 1) err ?w = (Inl e, w')"
      using assms(2,3) f Inl unfolding retry_def by (subst (asm) retry_loop_unfold) simp
    with assms(1) p show ?thesis by (rule retry_loop_error)
  qed
qed

text \<open>
  Claim C2. The operation is a test double whose \<open>j\<close>-th invocation has the outcome
  \<open>outcome j\<close>, its state counting the invocations, and the world starts with no
  invocation and no delay. If the first \<open>k\<close> invocations fail, then: when invocation
  \<open>k + 1\<close> succeeds and \<open>maxAttempts > k\<close>, \<open>retry\<close> returns its value after exactly
  \<open>k + 1\<close> invocations; when \<open>0 < maxAttempts \<le> k\<close>, \<open>retry\<close> throws the failure of
  invocation \<open>maxAttempts\<close>, the last one captured, unchanged, after exactly
  \<open>maxAttempts\<close> invocations; when \<open>maxAttempts = 0\<close> the operation is not invoked and
  \<open>retry\<close> throws, the thrown value being \<^verbatim>\<open>undefined\<close>. The delays are the linear
  backoff between the attempts.
\<close>

theorem retry_contract:
  fixes outcome :: "nat \<Rightarrow> thrown + 'a"
  assumes fails: "\<forall>j<k. isl (outcome j)"
  shows "(outcome k = Inr v \<and> int k < maxAttempts \<longrightarrow>
            retry (scripted outcome) maxAttempts delay \<lparr>state = 0, slept = []\<rparr>
            = (Inr v, \<lparr>state = k + 1, slept = backoff delay 0 k\<rparr>))
       \<and> (0 < maxAttempts \<and> maxAttempts \<le> int k \<longrightarrow>
            retry (scripted outcome) maxAttempts delay \<lparr>state = 0, slept = []\<rparr>
            = (Inl (projl (outcome (nat maxAttempts - 1))),
               \<lparr>state = nat maxAttempts, slept = backoff delay 0 (nat maxAttempts - 1)\<rparr>))
       \<and> (maxAttempts = 0 \<longrightarrow>
            retry (scripted outcome) maxAttempts delay \<lparr>state = 0, slept = []\<rparr>
            = (Inl ThrownUndefined, \<lparr>state = 0, slept = []\<rparr>))"
proof (intro conjI impI)
  assume a: "outcome k = Inr v \<and> int k < maxAttempts"
  have "retry_loop (scripted outcome) maxAttempts delay (int 0) ThrownUndefined
          \<lparr>state = 0, slept = []\<rparr>
        = (Inr v, \<lparr>state = Suc k, slept = [] @ backoff delay 0 k\<rparr>)"
    using fails a by (intro retry_loop_succeeds) auto
  then show "retry (scripted outcome) maxAttempts delay \<lparr>state = 0, slept = []\<rparr>
            = (Inr v, \<lparr>state = k + 1, slept = backoff delay 0 k\<rparr>)"
    by (simp add: retry_def)
next
  assume a: "0 < maxAttempts \<and> maxAttempts \<le> int k"
  define m where "m = nat maxAttempts"
  have m: "int m = maxAttempts" "0 < m" "m \<le> k" using a by (auto simp: m_def)
  have "retry_loop (scripted outcome) (int m) delay (int 0) ThrownUndefined
          \<lparr>state = 0, slept = []\<rparr>
        = (Inl (projl (outcome (m - 1))), \<lparr>state = m, slept = [] @ backoff delay 0 (m - 1)\<rparr>)"
    using fails m by (intro retry_loop_exhausts) auto
  then show "retry (scripted outcome) maxAttempts delay \<lparr>state = 0, slept = []\<rparr>
            = (Inl (projl (outcome (nat maxAttempts - 1))),
               \<lparr>state = nat maxAttempts, slept = backoff delay 0 (nat maxAttempts - 1)\<rparr>)"
    using m by (simp add: retry_def m_def)
next
  assume "maxAttempts = 0"
  then show "retry (scripted outcome) maxAttempts delay \<lparr>state = 0, slept = []\<rparr>
            = (Inl ThrownUndefined, \<lparr>state = 0, slept = []\<rparr>)"
    by (simp add: retry_no_attempts)
qed

theorem retry_contract_witness:
  "isl (flaky 0) \<and> isl (flaky 1) \<and> flaky 2 = Inr ''done''
   \<and> retry (scripted flaky) 3 1000 \<lparr>state = 0, slept = []\<rparr>
       = (Inr ''done'', \<lparr>state = 3, slept = [1000, 2000]\<rparr>)
   \<and> retry (scripted flaky) 2 1000 \<lparr>state = 0, slept = []\<rparr>
       = (Inl (Exn ParseError ''second'' (Some Instagram)), \<lparr>state = 2, slept = [1000]\<rparr>)
   \<and> retry (scripted flaky) 0 1000 \<lparr>state = 0, slept = []\<rparr>
       = (Inl ThrownUndefined, \<lparr>state = 0, slept = []\<rparr>)"
proof -
  have h: "\<forall>j<2. isl (flaky j)"
    by (auto simp: flaky_def)
  have v: "flaky 2 = Inr ''done''"
    by (simp add: flaky_def)
  have b2: "backoff 1000 0 2 = [1000, 2000]" and b1: "backoff 1000 0 1 = [1000]"
    by (simp_all add: backoff_def upt_rec)
  have p: "projl (flaky 1) = Exn ParseError ''second'' (Some Instagram)"
    by (simp add: flaky_def)
  have f: "isl (flaky 0)" "isl (flaky 1)"
    by (simp_all add: flaky_def)
  show ?thesis
    using f v b1 b2 p
      retry_contract [OF h, of "''done''" 3 1000]
      retry_contract [OF h, of "''done''" 2 1000]
      retry_contract [OF h, of "''done''" 0 1000]
    by (simp add: numeral_2_eq_2)
qed

section \<open>Scraper configuration\<close>

text \<open>
  Claim C10. In both constructors a field set to 0 (timeout, retries, retryDelay) or to
  the empty string (userAgent, proxy, cookies) gives the same effective configuration as
  the field left unset; \<open>retries: 0\<close> gives 3 and \<open>timeout: 0\<close> gives 10000; no
  configuration has an effective retry count or timeout of 0.
\<close>

theorem constructor_falsy_fields:
  "InstagramScraper_config (c\<lparr>timeout := Some 0\<rparr>) = InstagramScraper_config (c\<lparr>timeout := None\<rparr>)
   \<and> InstagramScraper_config (c\<lparr>retries := Some 0\<rparr>) = InstagramScraper_config (c\<lparr>retries := None\<rparr>)
   \<and> InstagramScraper_config (c\<lparr>retryDelay := Some 0\<rparr>) = InstagramScraper_config (c\<lparr>retryDelay := None\<rparr>)
   \<and> InstagramScraper_config (c\<lparr>userAgent := Some []\<rparr>) = InstagramScraper_config (c\<lparr>userAgent := None\<rparr>)
   \<and> InstagramScraper_config (c\<lparr>proxy := Some []\<rparr>) = InstagramScraper_config (c\<lparr>proxy := None\<rparr>)
   \<and> InstagramScraper_config (c\<lparr>cookies := Some []\<rparr>) = InstagramScraper_config (c\<lparr>cookies := None\<rparr>)
   \<and> FacebookScraper_config (c\<lparr>timeout := Some 0\<rparr>) = FacebookScraper_config (c\<lparr>timeout := None\<rparr>)
   \<and> FacebookScraper_config (c\<lparr>retries := Some 0\<rparr>) = FacebookScraper_config (c\<lparr>retries := None\<rparr>)
   \<and> FacebookScraper_config (c\<lparr>retryDelay := Some 0\<rparr>) = FacebookScraper_config (c\<lparr>retryDelay := None\<rparr>)
   \<and> FacebookScraper_config (c\<lparr>userAgent := Some []\<rparr>) = FacebookScraper_config (c\<lparr>userAgent := None\<rparr>)
   \<and> FacebookScraper_config (c\<lparr>proxy := Some []\<rparr>) = FacebookScraper_config (c\<lparr>proxy := None\<rparr>)
   \<and> FacebookScraper_config (c\<lparr>cookies := Some []\<rparr>) = FacebookScraper_config (c\<lparr>cookies := None\<rparr>)
   \<and> retries (InstagramScraper_config (c\<lparr>retries := Some 0\<rparr>)) = 3
   \<and> timeout (InstagramScraper_config (c\<lparr>timeout := Some 0\<rparr>)) = 10000
   \<and> retries (FacebookScraper_config (c\<lparr>retries := Some 0\<rparr>)) = 3
   \<and> timeout (FacebookScraper_config (c\<lparr>timeout := Some 0\<rparr>)) = 10000
   \<and> retries (InstagramScraper_config c) \<noteq> 0 \<and> timeout (InstagramScraper_config c) \<noteq> 0
   \<and> retries (FacebookScraper_config c) \<noteq> 0 \<and> timeout (FacebookScraper_config c) \<noteq> 0"
  by (simp add: InstagramScraper_config_def FacebookScraper_config_def or_num_def or_str_def
      split: option.splits)

section \<open>The HTTP client and the strategies\<close>

lemma client_get_error:
  "client_get req w = (Inl e, w') \<Longrightarrow> \<exists>m. e = Exn AxiosError m None"
  by (auto simp: client_get_def split: list.splits response.splits)

lemma client_get_failed:
  "pending (state w) = Failed m # rest \<Longrightarrow>
   client_get req w = (Inl (Exn AxiosError m None),
                       w\<lparr>state := \<lparr>pending = rest, sent = sent (state w) @ [req]\<rparr>\<rparr>)"
  by (simp add: client_get_def)

lemma client_get_ok:
  "pending (state w) = Ok raw v # rest \<Longrightarrow>
   client_get req w = (Inr (raw, v),
                       w\<lparr>state := \<lparr>pending = rest, sent = sent (state w) @ [req]\<rparr>\<rparr>)"
  by (simp add: client_get_def)

lemma client_get_sent:
  "sent (state (snd (client_get req w))) = sent (state w) @ [req]"
  by (simp add: client_get_def split: list.splits)

lemma Instagram_scrapeWithAPI_never_throws:
  "fst (Instagram_scrapeWithAPI cfg link w) \<noteq> Inl e"
  by (simp add: Instagram_scrapeWithAPI_def split: prod.splits sum.splits)

lemma Instagram_scrapeWithAPI_sent:
  "sent (state (snd (Instagram_scrapeWithAPI cfg link w)))
   = sent (state w) @ [instagram_api_request cfg link]"
proof -
  obtain r w1 where c: "client_get (instagram_api_request cfg link) w = (r, w1)" by force
  then have "sent (state w1) = sent (state w) @ [instagram_api_request cfg link]"
    using client_get_sent [of "instagram_api_request cfg link" w] by simp
  with c show ?thesis
    by (auto simp: Instagram_scrapeWithAPI_def Instagram_scrapeWithAPI_try_def
        split: prod.splits sum.splits)
qed

lemma Facebook_scrapeWithHTML_never_throws:
  "fst (Facebook_scrapeWithHTML cfg link w) \<noteq> Inl e"
  by (simp add: Facebook_scrapeWithHTML_def split: prod.splits sum.splits)

lemma Facebook_scrapeWithHTML_sent:
  "sent (state (snd (Facebook_scrapeWithHTML cfg link w)))
   = sent (state w) @ [facebook_page_request cfg link]"
proof -
  obtain r w1 where c: "client_get (facebook_page_request cfg link) w = (r, w1)" by force
  then have "sent (state w1) = sent (state w) @ [facebook_page_request cfg link]"
    using client_get_sent [of "facebook_page_request cfg link" w] by simp
  with c show ?thesis
    by (auto simp: Facebook_scrapeWithHTML_def split: prod.splits sum.splits)
qed

lemma Facebook_scrapeWithMobileSite_never_throws:
  "fst (Facebook_scrapeWithMobileSite cfg link w) \<noteq> Inl e"
  by (simp add: Facebook_scrapeWithMobileSite_def split: prod.splits sum.splits)

lemma Facebook_scrapeWithMobileSite_sent:
  "sent (state (snd (Facebook_scrapeWithMobileSite cfg link w)))
   = sent (state w) @ [facebook_mobile_request cfg link]"
proof -
  obtain r w1 where c: "client_get (facebook_mobile_request cfg link) w = (r, w1)" by force
  then have "sent (state w1) = sent (state w) @ [facebook_mobile_request cfg link]"
    using client_get_sent [of "facebook_mobile_request cfg link" w] by simp
  with c show ?thesis
    by (auto simp: Facebook_scrapeWithMobileSite_def split: prod.splits sum.splits)
qed

lemma Instagram_scrapeWithHTML_sent:
  "sent (state (snd (Instagram_scrapeWithHTML cfg link w)))
   = sent (state w) @ [page_request cfg link]"
proof -
  obtain r w1 where c: "client_get (page_request cfg link) w = (r, w1)" by force
  then have "sent (state w1) = sent (state w) @ [page_request cfg link]"
    using client_get_sent [of "page_request cfg link" w] by simp
  with c show ?thesis
    by (auto simp: Instagram_scrapeWithHTML_def Instagram_scrapeWithHTML_try_def
        split: prod.splits sum.splits)
qed

text \<open>Every run of the operation handed to \<^verbatim>\<open>retry\<close> starts with a request.\<close>

lemma Instagram_attempt_sends:
  "\<exists>more. sent (state (snd (Instagram_attempt cfg link w)))
           = sent (state w) @ instagram_api_request cfg link # more"
proof -
  obtain r1 w1 where s1: "Instagram_scrapeWithAPI cfg link w = (r1, w1)" by force
  obtain r2 w2 where s2: "Instagram_scrapeWithHTML cfg link w1 = (r2, w2)" by force
  have a: "sent (state w1) = sent (state w) @ [instagram_api_request cfg link]"
    using Instagram_scrapeWithAPI_sent [of cfg link w] s1 by simp
  have b: "sent (state w2) = sent (state w1) @ [page_request cfg link]"
    using Instagram_scrapeWithHTML_sent [of cfg link w1] s2 by simp
  show ?thesis
    using a b
    by (auto simp: Instagram_attempt_def s1 s2 split: sum.splits option.splits)
qed

lemma Facebook_attempt_sends:
  "\<exists>more. sent (state (snd (Facebook_attempt cfg link vid w)))
           = sent (state w) @ facebook_page_request cfg link # more"
proof -
  obtain r1 w1 where s1: "Facebook_scrapeWithHTML cfg link w = (r1, w1)" by force
  obtain r2 w2 where s2: "Facebook_scrapeWithMobileSite cfg link w1 = (r2, w2)" by force
  have a: "sent (state w1) = sent (state w) @ [facebook_page_request cfg link]"
    using Facebook_scrapeWithHTML_sent [of cfg link w] s1 by simp
  have b: "sent (state w2) = sent (state w1) @ [facebook_mobile_request cfg link]"
    using Facebook_scrapeWithMobileSite_sent [of cfg link w1] s2 by simp
  show ?thesis
    using a b
    by (auto simp: Facebook_attempt_def s1 s2 Facebook_scrapeWithGraphAPI_def
        split: sum.splits option.splits)
qed

lemma Facebook_attempt_error:
  assumes "fst (Facebook_attempt cfg link vid w) = Inl e"
  shows "e = Exn ParseError ''Could not extract video metadata'' (Some Facebook)"
proof -
  obtain r1 w1 where s1: "Facebook_scrapeWithHTML cfg link w = (r1, w1)" by force
  obtain r2 w2 where s2: "Facebook_scrapeWithMobileSite cfg link w1 = (r2, w2)" by force
  have n1: "\<not> isl r1" using Facebook_scrapeWithHTML_never_throws [of cfg link w] s1
    by (cases r1) auto
  have n2: "\<not> isl r2" using Facebook_scrapeWithMobileSite_never_throws [of cfg link w1] s2
    by (cases r2) auto
  show ?thesis
    using assms n1 n2
    by (auto simp: Facebook_attempt_def s1 s2 Facebook_scrapeWithGraphAPI_def
        split: sum.splits option.splits)
qed

lemma Instagram_scrapeWithHTML_error:
  assumes "Instagram_scrapeWithHTML cfg link w = (Inl e, w')"
  shows "\<exists>m. e = Exn NetworkError (''Failed to fetch HTML: '' @ m) (Some Instagram)"
proof -
  obtain r1 w1 where t: "Instagram_scrapeWithHTML_try cfg link w = (r1, w1)" by force
  show ?thesis
  proof (cases r1)
    case (Inl err)
    with t obtain m where "err = Exn AxiosError m None"
      by (auto simp: Instagram_scrapeWithHTML_try_def split: prod.splits sum.splits
          dest: client_get_error)
    with Inl t assms show ?thesis
      by (auto simp: Instagram_scrapeWithHTML_def message_of_def)
  next
    case (Inr res)
    with t assms show ?thesis by (simp add: Instagram_scrapeWithHTML_def)
  qed
qed

lemma Instagram_attempt_error:
  assumes "fst (Instagram_attempt cfg link w) = Inl e"
  shows "e = Exn ParseError ''Could not extract video metadata'' (Some Instagram)
         \<or> (\<exists>m. e = Exn NetworkError (''Failed to fetch HTML: '' @ m) (Some Instagram))"
proof -
  obtain r1 w1 where s1: "Instagram_scrapeWithAPI cfg link w = (r1, w1)" by force
  obtain r2 w2 where s2: "Instagram_scrapeWithHTML cfg link w1 = (r2, w2)" by force
  have n1: "\<not> isl r1" using Instagram_scrapeWithAPI_never_throws [of cfg link w] s1
    by (cases r1) auto
  show ?thesis
  proof (cases r2)
    case (Inl err)
    with s2 have "\<exists>m. err = Exn NetworkError (''Failed to fetch HTML: '' @ m) (Some Instagram)"
      by (auto dest: Instagram_scrapeWithHTML_error)
    with Inl assms n1 show ?thesis
      by (auto simp: Instagram_attempt_def s1 s2 split: sum.splits option.splits)
  next
    case (Inr res)
    with assms n1 show ?thesis
      by (auto simp: Instagram_attempt_def s1 s2 split: sum.splits option.splits)
  qed
qed

lemma Facebook_scrapeWithHTML_failed:
  "pending (state w) = Failed m # rest \<Longrightarrow>
   Facebook_scrapeWithHTML cfg link w =
     (Inr None,
      w\<lparr>state := \<lparr>pending = rest, sent = sent (state w) @ [facebook_page_request cfg link]\<rparr>\<rparr>)"
  by (simp add: Facebook_scrapeWithHTML_def client_get_failed)

lemma Facebook_attempt_after_failure:
  assumes "pending (state w) = Failed m # Ok raw (Html doc) # rest"
    and "truthy_str (extractVideoURL doc)"
  shows "Facebook_attempt cfg link vid w =
     (Inr (extractMetadataFromHTML doc
             ((baseMetadata Facebook Video link)\<lparr>videoUrl := extractVideoURL doc\<rparr>)),
      w\<lparr>state := \<lparr>pending = rest,
                   sent = sent (state w) @ [facebook_page_request cfg link,
                                            facebook_mobile_request cfg link]\<rparr>\<rparr>)"
  using assms
  by (simp add: Facebook_attempt_def Facebook_scrapeWithHTML_failed
      Facebook_scrapeWithMobileSite_def client_get_ok facebook_result_def)

lemma Instagram_scrapeWithAPI_failed:
  "pending (state w) = Failed m # rest \<Longrightarrow>
   Instagram_scrapeWithAPI cfg link w =
     (Inr None,
      w\<lparr>state := \<lparr>pending = rest, sent = sent (state w) @ [instagram_api_request cfg link]\<rparr>\<rparr>)"
  by (simp add: Instagram_scrapeWithAPI_def Instagram_scrapeWithAPI_try_def client_get_failed)

lemma Instagram_attempt_api_failed:
  assumes "pending (state w) = Failed m # rest"
  shows "Instagram_attempt cfg link w =
     (case Instagram_scrapeWithHTML cfg link
             (w\<lparr>state := \<lparr>pending = rest,
                          sent = sent (state w) @ [instagram_api_request cfg link]\<rparr>\<rparr>) of
        (Inl e, w2) \<Rightarrow> (Inl e, w2)
      | (Inr (Some result), w2) \<Rightarrow> (Inr result, w2)
      | (Inr None, w2) \<Rightarrow>
          (Inl (Exn ParseError ''Could not extract video metadata'' (Some Instagram)), w2))"
  using assms by (simp add: Instagram_attempt_def Instagram_scrapeWithAPI_failed)

lemma Instagram_scrapeWithHTML_failed:
  "pending (state w) = Failed m # rest \<Longrightarrow>
   Instagram_scrapeWithHTML cfg link w =
     (Inl (Exn NetworkError (''Failed to fetch HTML: '' @ m) (Some Instagram)),
      w\<lparr>state := \<lparr>pending = rest, sent = sent (state w) @ [page_request cfg link]\<rparr>\<rparr>)"
  by (simp add: Instagram_scrapeWithHTML_def Instagram_scrapeWithHTML_try_def client_get_failed
      message_of_def)

lemma Instagram_attempt_page_failed:
  assumes "Instagram_scrapeWithAPI cfg link w = (Inr None, w1)"
    and "pending (state w1) = Failed m # rest"
  shows "Instagram_attempt cfg link w =
     (Inl (Exn NetworkError (''Failed to fetch HTML: '' @ m) (Some Instagram)),
      w1\<lparr>state := \<lparr>pending = rest, sent = sent (state w1) @ [page_request cfg link]\<rparr>\<rparr>)"
  using assms by (simp add: Instagram_attempt_def Instagram_scrapeWithHTML_failed)

text \<open>
  Claim C6. When no pattern of the extractor finds an identifier in the URL, \<open>scrape\<close>
  fails with a \<open>ParseError\<close> and leaves the world as it was: no request was sent and no
  delay was waited. Every run of the retried operation starts by sending a request, so
  the unchanged world also says that no attempt was made.
\<close>

theorem scrape_unidentifiable:
  "(extractInstagramShortcode link = None \<longrightarrow>
      Instagram_scrape cfg link w
      = (Inl (Exn ParseError ''Could not extract shortcode from URL'' (Some Instagram)), w))
   \<and> (extractFacebookVideoId link = None \<longrightarrow>
      Facebook_scrape cfg link w
      = (Inl (Exn ParseError ''Could not extract video ID from URL'' (Some Facebook)), w))
   \<and> sent (state (snd (Instagram_attempt cfg link w))) \<noteq> sent (state w)
   \<and> sent (state (snd (Facebook_attempt cfg link vid w))) \<noteq> sent (state w)"
proof (intro conjI impI)
  assume "extractInstagramShortcode link = None"
  then show "Instagram_scrape cfg link w
      = (Inl (Exn ParseError ''Could not extract shortcode from URL'' (Some Instagram)), w)"
    by (simp add: Instagram_scrape_def truthy_str_def)
next
  assume "extractFacebookVideoId link = None"
  then show "Facebook_scrape cfg link w
      = (Inl (Exn ParseError ''Could not extract video ID from URL'' (Some Facebook)), w)"
    by (simp add: Facebook_scrape_def)
next
  show "sent (state (snd (Instagram_attempt cfg link w))) \<noteq> sent (state w)"
    using Instagram_attempt_sends [of cfg link w] by auto
next
  show "sent (state (snd (Facebook_attempt cfg link vid w))) \<noteq> sent (state w)"
    using Facebook_attempt_sends [of cfg link vid w] by auto
qed

theorem scrape_unidentifiable_witness:
  "extractInstagramShortcode ''https://www.instagram.com/stories/someone/'' = None
   \<and> Instagram_scrape defaultConfig ''https://www.instagram.com/stories/someone/'' (fresh [])
      = (Inl (Exn ParseError ''Could not extract shortcode from URL'' (Some Instagram)), fresh [])
   \<and> extractFacebookVideoId ''https://www.facebook.com/somepage/photos/'' = None
   \<and> Facebook_scrape defaultConfig ''https://www.facebook.com/somepage/photos/'' (fresh [])
      = (Inl (Exn ParseError ''Could not extract video ID from URL'' (Some Facebook)), fresh [])"
proof -
  have i: "extractInstagramShortcode ''https://www.instagram.com/stories/someone/'' = None"
    by code_simp
  have f: "extractFacebookVideoId ''https://www.facebook.com/somepage/photos/'' = None"
    by code_simp
  show ?thesis
    using i f
      scrape_unidentifiable [of "''https://www.instagram.com/stories/someone/''"
        defaultConfig "fresh []"]
      scrape_unidentifiable [of "''https://www.facebook.com/somepage/photos/''"
        defaultConfig "fresh []"]
    by blast
qed

text \<open>
  Claim C1, as stated, fails for Instagram. With default configuration and a network on
  which both requests fail, the API strategy swallows its failure and the page request
  runs, but the failure of the page request leaves the operation as a \<open>NetworkError\<close>,
  not as the \<open>ParseError\<close> of an exhausted chain; \<open>retry\<close> receives it, runs the
  operation three times and rethrows it.
\<close>

theorem instagram_page_failure_propagates:
  "Instagram_attempt defaultConfig ''https://www.instagram.com/p/ABC123/''
     (fresh [Failed ''timeout of 10000ms exceeded'', Failed ''socket hang up''])
   = (Inl (Exn NetworkError ''Failed to fetch HTML: socket hang up'' (Some Instagram)),
      \<lparr>state = \<lparr>pending = [],
                 sent = [instagram_api_request defaultConfig ''https://www.instagram.com/p/ABC123/'',
                         page_request defaultConfig ''https://www.instagram.com/p/ABC123/'']\<rparr>,
       slept = []\<rparr>)
   \<and> fst (Instagram_scrape defaultConfig ''https://www.instagram.com/p/ABC123/'' (fresh []))
     = Inl (Exn NetworkError ''Failed to fetch HTML: Network Error'' (Some Instagram))"
proof -
  have a: "Instagram_attempt defaultConfig ''https://www.instagram.com/p/ABC123/''
     (fresh [Failed ''timeout of 10000ms exceeded'', Failed ''socket hang up''])
   = (Inl (Exn NetworkError ''Failed to fetch HTML: socket hang up'' (Some Instagram)),
      \<lparr>state = \<lparr>pending = [],
                 sent = [instagram_api_request defaultConfig ''https://www.instagram.com/p/ABC123/'',
                         page_request defaultConfig ''https://www.instagram.com/p/ABC123/'']\<rparr>,
       slept = []\<rparr>)"
    by (simp add: Instagram_attempt_def Instagram_scrapeWithAPI_def Instagram_scrapeWithAPI_try_def
        Instagram_scrapeWithHTML_def Instagram_scrapeWithHTML_try_def client_get_def fresh_def
        message_of_def)
  have b: "fst (Instagram_scrape defaultConfig ''https://www.instagram.com/p/ABC123/'' (fresh []))
     = Inl (Exn NetworkError ''Failed to fetch HTML: Network Error'' (Some Instagram))"
    by code_simp
  show ?thesis using a b by (rule conjI)
qed

text \<open>
  Claim C1, amended. Facebook chain (full-site HTML, mobile-site HTML, Graph API): the
  only failure the operation hands to \<open>retry\<close> is the \<open>ParseError\<close> of a chain in which
  every strategy found nothing, and after a transport failure of the full-site request
  the mobile-site strategy runs and its result is returned. Instagram chain: after a
  transport failure of the API request the operation behaves as the HTML strategies do
  on the rest of the network; JSON-LD, embedded scripts and meta tags share one page
  request, and a transport failure of that request is handed to \<open>retry\<close> as a
  \<open>NetworkError\<close>; the operation throws nothing but that \<open>NetworkError\<close> and the
  \<open>ParseError\<close> of a chain in which every strategy found nothing.
\<close>

theorem strategy_chain_failures:
  "(fst (Facebook_attempt cfg link vid w) = Inl e \<longrightarrow>
      e = Exn ParseError ''Could not extract video metadata'' (Some Facebook))
   \<and> (pending (state w) = Failed m # Ok raw (Html doc) # rest \<and> truthy_str (extractVideoURL doc) \<longrightarrow>
      Facebook_attempt cfg link vid w =
        (Inr (extractMetadataFromHTML doc
                ((baseMetadata Facebook Video link)\<lparr>videoUrl := extractVideoURL doc\<rparr>)),
         w\<lparr>state := \<lparr>pending = rest,
                      sent = sent (state w) @ [facebook_page_request cfg link,
                                               facebook_mobile_request cfg link]\<rparr>\<rparr>))
   \<and> (pending (state w) = Failed m # rest \<longrightarrow>
      Instagram_attempt cfg link w =
        (case Instagram_scrapeWithHTML cfg link
                (w\<lparr>state := \<lparr>pending = rest,
                             sent = sent (state w) @ [instagram_api_request cfg link]\<rparr>\<rparr>) of
           (Inl e, w2) \<Rightarrow> (Inl e, w2)
         | (Inr (Some result), w2) \<Rightarrow> (Inr result, w2)
         | (Inr None, w2) \<Rightarrow>
             (Inl (Exn ParseError ''Could not extract video metadata'' (Some Instagram)), w2)))
   \<and> (Instagram_scrapeWithAPI cfg link w = (Inr None, w1) \<and> pending (state w1) = Failed m # rest \<longrightarrow>
      Instagram_attempt cfg link w =
        (Inl (Exn NetworkError (''Failed to fetch HTML: '' @ m) (Some Instagram)),
         w1\<lparr>state := \<lparr>pending = rest, sent = sent (state w1) @ [page_request cfg link]\<rparr>\<rparr>))
   \<and> (fst (Instagram_attempt cfg link w) = Inl e \<longrightarrow>
      e = Exn ParseError ''Could not extract video metadata'' (Some Instagram)
      \<or> (\<exists>msg. e = Exn NetworkError (''Failed to fetch HTML: '' @ msg) (Some Instagram)))"
proof (intro conjI impI)
  assume "fst (Facebook_attempt cfg link vid w) = Inl e"
  then show "e = Exn ParseError ''Could not extract video metadata'' (Some Facebook)"
    by (rule Facebook_attempt_error)
next
  assume "pending (state w) = Failed m # Ok raw (Html doc) # rest \<and> truthy_str (extractVideoURL doc)"
  then show "Facebook_attempt cfg link vid w =
        (Inr (extractMetadataFromHTML doc
                ((baseMetadata Facebook Video link)\<lparr>videoUrl := extractVideoURL doc\<rparr>)),
         w\<lparr>state := \<lparr>pending = rest,
                      sent = sent (state w) @ [facebook_page_request cfg link,
                                               facebook_mobile_request cfg link]\<rparr>\<rparr>)"
    by (intro Facebook_attempt_after_failure) auto
next
  assume "pending (state w) = Failed m # rest"
  then show "Instagram_attempt cfg link w =
        (case Instagram_scrapeWithHTML cfg link
                (w\<lparr>state := \<lparr>pending = rest,
                             sent = sent (state w) @ [instagram_api_request cfg link]\<rparr>\<rparr>) of
           (Inl e, w2) \<Rightarrow> (Inl e, w2)
         | (Inr (Some result), w2) \<Rightarrow> (Inr result, w2)
         | (Inr None, w2) \<Rightarrow>
             (Inl (Exn ParseError ''Could not extract video metadata'' (Some Instagram)), w2))"
    by (rule Instagram_attempt_api_failed)
next
  assume "Instagram_scrapeWithAPI cfg link w = (Inr None, w1) \<and> pending (state w1) = Failed m # rest"
  then show "Instagram_attempt cfg link w =
        (Inl (Exn NetworkError (''Failed to fetch HTML: '' @ m) (Some Instagram)),
         w1\<lparr>state := \<lparr>pending = rest, sent = sent (state w1) @ [page_request cfg link]\<rparr>\<rparr>)"
    by (intro Instagram_attempt_page_failed) auto
next
  assume "fst (Instagram_attempt cfg link w) = Inl e"
  then show "e = Exn ParseError ''Could not extract video metadata'' (Some Instagram)
      \<or> (\<exists>msg. e = Exn NetworkError (''Failed to fetch HTML: '' @ msg) (Some Instagram))"
    by (rule Instagram_attempt_error)
qed

theorem strategy_chain_failures_witness:
  "fst (Facebook_attempt defaultConfig ''https://www.facebook.com/watch/?v=12345'' ''12345'' (fresh []))
     = Inl (Exn ParseError ''Could not extract video metadata'' (Some Facebook))
   \<and> truthy_str (extractVideoURL ogVideoPage)
   \<and> fst (Facebook_attempt defaultConfig ''https://www.facebook.com/watch/?v=12345'' ''12345''
            (fresh [Failed ''socket hang up'', Ok [] (Html ogVideoPage)]))
     = Inr (extractMetadataFromHTML ogVideoPage
              ((baseMetadata Facebook Video ''https://www.facebook.com/watch/?v=12345'')
                 \<lparr>videoUrl := extractVideoURL ogVideoPage\<rparr>))
   \<and> fst (Instagram_attempt defaultConfig ''https://www.instagram.com/p/ABC123/''
            (fresh [Failed ''socket hang up'', Ok [] (Html ogVideoPage)]))
     = Inr ((baseMetadata Instagram Video ''https://www.instagram.com/p/ABC123/'')
              \<lparr>videoUrl := Some ''https://cdn.example/x.mp4'', thumbnail := Some [],
               username := Some ''unknown'', caption := Some [], hashtags := Some [],
               mentions := Some []\<rparr>)
   \<and> fst (Instagram_attempt defaultConfig ''https://www.instagram.com/p/ABC123/''
            (fresh [Ok [] Opaque, Failed ''socket hang up'']))
     = Inl (Exn NetworkError ''Failed to fetch HTML: socket hang up'' (Some Instagram))
   \<and> fst (Instagram_attempt defaultConfig ''https://www.instagram.com/p/ABC123/'' (fresh []))
     = Inl (Exn NetworkError ''Failed to fetch HTML: Network Error'' (Some Instagram))"
proof -
  let ?F = "''https://www.facebook.com/watch/?v=12345''"
  let ?I = "''https://www.instagram.com/p/ABC123/''"
  note t = strategy_chain_failures
  have a0: "fst (Facebook_attempt defaultConfig ?F ''12345'' (fresh []))
            = Inl (Exn ParseError ''Could not extract video metadata'' (Some Facebook))"
    by (simp add: Facebook_attempt_def Facebook_scrapeWithHTML_def Facebook_scrapeWithMobileSite_def
        Facebook_scrapeWithGraphAPI_def client_get_def fresh_def)
  have a: "Exn ParseError ''Could not extract video metadata'' (Some Facebook)
           = Exn ParseError ''Could not extract video metadata'' (Some Facebook)"
    using t [where cfg = defaultConfig and link = ?F and vid = "''12345''" and w = "fresh []"
        and e = "Exn ParseError ''Could not extract video metadata'' (Some Facebook)"] a0
    by blast
  have b0: "pending (state (fresh [Failed ''socket hang up'', Ok [] (Html ogVideoPage)]))
            = Failed ''socket hang up'' # Ok [] (Html ogVideoPage) # []"
    by (simp add: fresh_def)
  have b1: "truthy_str (extractVideoURL ogVideoPage)"
    by code_simp
  have b: "fst (Facebook_attempt defaultConfig ?F ''12345''
                 (fresh [Failed ''socket hang up'', Ok [] (Html ogVideoPage)]))
           = Inr (extractMetadataFromHTML ogVideoPage
                    ((baseMetadata Facebook Video ?F)\<lparr>videoUrl := extractVideoURL ogVideoPage\<rparr>))"
    using t [where cfg = defaultConfig and link = ?F and vid = "''12345''"
        and w = "fresh [Failed ''socket hang up'', Ok [] (Html ogVideoPage)]"
        and m = "''socket hang up''" and raw = "[]" and doc = ogVideoPage and rest = "[]"] b0 b1
    by simp
  have c0: "pending (state (fresh [Failed ''socket hang up'', Ok [] (Html ogVideoPage)]))
            = Failed ''socket hang up'' # [Ok [] (Html ogVideoPage)]"
    by (simp add: fresh_def)
  have c1: "extractFromMetaTags (Html ogVideoPage) ?I
            = Some ((baseMetadata Instagram Video ?I)
                \<lparr>videoUrl := Some ''https://cdn.example/x.mp4'', thumbnail := Some [],
                 username := Some ''unknown'', caption := Some [], hashtags := Some [],
                 mentions := Some []\<rparr>)"
    by code_simp
  have c2: "extractFromJSONLD (Html ogVideoPage) ?I = None"
    "extractFromScripts (Html ogVideoPage) ?I = None"
    by code_simp+
  have c: "fst (Instagram_attempt defaultConfig ?I
                 (fresh [Failed ''socket hang up'', Ok [] (Html ogVideoPage)]))
           = Inr ((baseMetadata Instagram Video ?I)
                \<lparr>videoUrl := Some ''https://cdn.example/x.mp4'', thumbnail := Some [],
                 username := Some ''unknown'', caption := Some [], hashtags := Some [],
                 mentions := Some []\<rparr>)"
    using t [where cfg = defaultConfig and link = ?I
        and w = "fresh [Failed ''socket hang up'', Ok [] (Html ogVideoPage)]"
        and m = "''socket hang up''" and rest = "[Ok [] (Html ogVideoPage)]"] c0
    by (simp add: Instagram_scrapeWithHTML_def Instagram_scrapeWithHTML_try_def client_get_def
        fresh_def c1 c2)
  let ?w1 = "\<lparr>state = \<lparr>pending = [Failed ''socket hang up''],
                        sent = [instagram_api_request defaultConfig ?I]\<rparr>, slept = []\<rparr>"
  have d0: "Instagram_scrapeWithAPI defaultConfig ?I (fresh [Ok [] Opaque, Failed ''socket hang up''])
            = (Inr None, ?w1)"
    by (simp add: Instagram_scrapeWithAPI_def Instagram_scrapeWithAPI_try_def client_get_def
        fresh_def)
  have d1: "pending (state ?w1) = Failed ''socket hang up'' # []"
    by simp
  have d: "fst (Instagram_attempt defaultConfig ?I (fresh [Ok [] Opaque, Failed ''socket hang up'']))
           = Inl (Exn NetworkError ''Failed to fetch HTML: socket hang up'' (Some Instagram))"
    using t [where cfg = defaultConfig and link = ?I
        and w = "fresh [Ok [] Opaque, Failed ''socket hang up'']"
        and m = "''socket hang up''" and rest = "[]" and ?w1.0 = ?w1] d0 d1
    by simp
  have e0: "fst (Instagram_attempt defaultConfig ?I (fresh []))
            = Inl (Exn NetworkError ''Failed to fetch HTML: Network Error'' (Some Instagram))"
    by (simp add: Instagram_attempt_def Instagram_scrapeWithAPI_def Instagram_scrapeWithAPI_try_def
        Instagram_scrapeWithHTML_def Instagram_scrapeWithHTML_try_def client_get_def fresh_def
        message_of_def)
  have e1: "Exn NetworkError ''Failed to fetch HTML: Network Error'' (Some Instagram)
              = Exn ParseError ''Could not extract video metadata'' (Some Instagram)
            \<or> (\<exists>msg. Exn NetworkError ''Failed to fetch HTML: Network Error'' (Some Instagram)
                   = Exn NetworkError (''Failed to fetch HTML: '' @ msg) (Some Instagram))"
    using t [where cfg = defaultConfig and link = ?I and w = "fresh []"
        and e = "Exn NetworkError ''Failed to fetch HTML: Network Error'' (Some Instagram)"] e0
    by blast
  show ?thesis
    using a0 b1 b c d e0 by (intro conjI)
qed

text \<open>Whatever a parser throws inside the API strategy, the strategy answers \<^verbatim>\<open>null\<close>.\<close>

lemma Instagram_scrapeWithAPI_swallows:
  assumes "pending (state w) = Ok raw (Json d) # rest"
    and "(items0 d = Some item \<and> parseAPIResponse item link = Inl e)
         \<or> (items0 d = None \<and> shortcode_media d = Some media
             \<and> parseGraphQLResponse media link = Inl e)"
  shows "Instagram_scrapeWithAPI cfg link w =
     (Inr None,
      w\<lparr>state := \<lparr>pending = rest, sent = sent (state w) @ [instagram_api_request cfg link]\<rparr>\<rparr>)"
  using assms
  by (auto simp: Instagram_scrapeWithAPI_def Instagram_scrapeWithAPI_try_def client_get_ok)

text \<open>
  Claim C4. A post that the API-style strategy recognises as not a video is claimed to
  make \<open>scrape\<close> fail with the \<open>ParseError\<close> of a non-video post. Both parsers throw that
  error, for the API item with media type 1 and product type \<open>feed\<close> and for the GraphQL
  media with \<open>is_video\<close> false, but they run inside the \<^verbatim>\<open>try\<close> of
  \<open>scrapeWithAPI\<close>, whose \<^verbatim>\<open>catch\<close> answers \<^verbatim>\<open>null\<close>: the chain goes on, and with a
  page that carries an Open Graph video tag \<open>scrape\<close> returns metadata of type \<open>video\<close>
  for the image post.
\<close>

theorem not_a_video_is_swallowed:
  "parseAPIResponse imageItem ''https://www.instagram.com/p/ABC123/''
     = Inl (Exn ParseError ''Post does not contain a video'' (Some Instagram))
   \<and> fst (Instagram_scrape defaultConfig ''https://www.instagram.com/p/ABC123/''
            (fresh [Ok [] (Json \<lparr>items0 = Some imageItem, shortcode_media = None\<rparr>),
                    Ok [] (Html ogVideoPage)]))
     = Inr ((baseMetadata Instagram Video ''https://www.instagram.com/p/ABC123/'')
              \<lparr>videoUrl := Some ''https://cdn.example/x.mp4'', thumbnail := Some [],
               username := Some ''unknown'', caption := Some [], hashtags := Some [],
               mentions := Some []\<rparr>)
   \<and> parseGraphQLResponse imageMedia ''https://www.instagram.com/p/ABC123/''
     = Inl (Exn ParseError ''Post does not contain a video'' (Some Instagram))
   \<and> fst (Instagram_scrape defaultConfig ''https://www.instagram.com/p/ABC123/''
            (fresh [Ok [] (Json \<lparr>items0 = None, shortcode_media = Some imageMedia\<rparr>),
                    Ok [] (Html ogVideoPage)]))
     = Inr ((baseMetadata Instagram Video ''https://www.instagram.com/p/ABC123/'')
              \<lparr>videoUrl := Some ''https://cdn.example/x.mp4'', thumbnail := Some [],
               username := Some ''unknown'', caption := Some [], hashtags := Some [],
               mentions := Some []\<rparr>)"
  by code_simp

section \<open>The facade\<close>

text \<open>
  Claim C5. The facade's \<open>download\<close> is claimed never to raise. A scraper configured
  with \<open>retries: -1\<close> keeps that value (only falsy values are replaced), so \<open>retry\<close> runs
  its loop zero times and throws its unassigned \<open>lastError\<close>, the value \<^verbatim>\<open>undefined\<close>.
  The \<^verbatim>\<open>catch\<close> of \<open>download\<close> receives it and reads \<^verbatim>\<open>error.message\<close>, which raises
  a \<open>TypeError\<close> out of \<open>download\<close>: for this URL, every options value and every
  network, no \<open>DownloadResult\<close> is returned.
\<close>

theorem download_raises_with_negative_retries:
  "download (new_SocialMediaScraper (emptyConfig\<lparr>retries := Some (- 1)\<rparr>))
     (Str ''https://www.instagram.com/p/ABC123/'') opts w
   = (Inl (Exn TypeError ''Cannot read properties of undefined (reading 'message')'' None), w)"
proof -
  have v: "validateURL (Str ''https://www.instagram.com/p/ABC123/'')
     = Inr \<lparr>platform = Instagram, normalizedUrl = ''https://www.instagram.com/p/ABC123/''\<rparr>"
    by code_simp
  have s: "truthy_str (extractInstagramShortcode ''https://www.instagram.com/p/ABC123/'')"
    by code_simp
  have r: "retries (instagramScraper (new_SocialMediaScraper (emptyConfig\<lparr>retries := Some (- 1)\<rparr>)))
           = - 1"
    by (simp add: new_SocialMediaScraper_def InstagramScraper_config_def or_num_def emptyConfig_def)
  have "Instagram_scrape (instagramScraper (new_SocialMediaScraper (emptyConfig\<lparr>retries := Some (- 1)\<rparr>)))
          ''https://www.instagram.com/p/ABC123/'' w = (Inl ThrownUndefined, w)"
    by (simp add: Instagram_scrape_def s r retry_no_attempts)
  then show ?thesis
    by (simp add: download_def download_try_def v message_of_def)
qed

text \<open>
  With at least one attempt configured the thrown values are all error objects, and
  \<open>download\<close> returns a result for every argument and every network.
\<close>

lemma message_of_Exn: "e \<noteq> ThrownUndefined \<Longrightarrow> \<exists>msg. message_of e = Inr msg"
  by (cases e) (simp_all add: message_of_def)

lemma fetch_video_error:
  assumes "fetch_video p cfg m w = (Inl e, w')"
  shows "e \<noteq> ThrownUndefined"
proof (cases "truthy_str (videoUrl m)")
  case False
  with assms show ?thesis by (auto simp: fetch_video_def)
next
  case True
  obtain r w1 where c: "client_get (binary_request cfg (the (videoUrl m))) w = (r, w1)" by force
  show ?thesis
  proof (cases r)
    case (Inl err)
    with c obtain msg where "err = Exn AxiosError msg None" by (auto dest: client_get_error)
    with assms True c Inl show ?thesis by (auto simp: fetch_video_def message_of_def)
  next
    case (Inr res)
    with assms True c show ?thesis by (cases res) (auto simp: fetch_video_def)
  qed
qed

lemma Instagram_scrape_error:
  assumes "0 < retries cfg" and "Instagram_scrape cfg link w = (Inl e, w')"
  shows "e \<noteq> ThrownUndefined"
proof (cases "truthy_str (extractInstagramShortcode link)")
  case False
  with assms(2) show ?thesis by (auto simp: Instagram_scrape_def)
next
  case True
  with assms(2) have r: "retry (Instagram_attempt cfg link) (retries cfg) (retryDelay cfg) w
                         = (Inl e, w')"
    by (simp add: Instagram_scrape_def)
  have "\<And>w e w'. Instagram_attempt cfg link w = (Inl e, w') \<Longrightarrow> e \<noteq> ThrownUndefined"
  proof -
    fix w e w'
    assume "Instagram_attempt cfg link w = (Inl e, w')"
    then have "fst (Instagram_attempt cfg link w) = Inl e" by simp
    then show "e \<noteq> ThrownUndefined" by (auto dest: Instagram_attempt_error)
  qed
  then show ?thesis using assms(1) r by (rule retry_error)
qed

lemma Facebook_scrape_error:
  assumes "0 < retries cfg" and "Facebook_scrape cfg link w = (Inl e, w')"
  shows "e \<noteq> ThrownUndefined"
proof (cases "extractFacebookVideoId link")
  case None
  with assms(2) show ?thesis by (auto simp: Facebook_scrape_def)
next
  case (Some vid)
  show ?thesis
  proof (cases "vid = []")
    case True
    with Some assms(2) show ?thesis by (auto simp: Facebook_scrape_def)
  next
    case False
    with Some assms(2) have r: "retry (Facebook_attempt cfg link vid) (retries cfg) (retryDelay cfg) w
                                = (Inl e, w')"
      by (simp add: Facebook_scrape_def)
    have "\<And>w e w'. Facebook_attempt cfg link vid w = (Inl e, w') \<Longrightarrow> e \<noteq> ThrownUndefined"
    proof -
      fix w e w'
      assume "Facebook_attempt cfg link vid w = (Inl e, w')"
      then have "fst (Facebook_attempt cfg link vid w) = Inl e" by simp
      then show "e \<noteq> ThrownUndefined" by (auto dest: Facebook_attempt_error)
    qed
    then show ?thesis using assms(1) r by (rule retry_error)
  qed
qed

lemma validateURL_error: "validateURL arg = Inl e \<Longrightarrow> e \<noteq> ThrownUndefined"
  by (auto simp: validateURL_def normalizeFacebookURL_def Let_def
      split: jsarg.splits if_splits sum.splits option.splits)

lemma download_try_error:
  assumes "0 < retries (instagramScraper this)" and "0 < retries (facebookScraper this)"
    and "download_try this arg w = (Inl e, w')"
  shows "e \<noteq> ThrownUndefined"
proof (cases "validateURL arg")
  case (Inl err)
  with assms(3) show ?thesis by (auto simp: download_try_def dest: validateURL_error)
next
  case (Inr v)
  show ?thesis
  proof (cases "platform v")
    case Instagram
    obtain r1 w1 where s: "Instagram_scrape (instagramScraper this) (normalizedUrl v) w = (r1, w1)"
      by force
    show ?thesis
    proof (cases r1)
      case (Inl err)
      with s assms(1) have "err \<noteq> ThrownUndefined" by (auto dest: Instagram_scrape_error)
      with assms(3) Inr Instagram s Inl show ?thesis by (simp add: download_try_def)
    next
      case (Inr m)
      obtain r2 w2 where d: "Instagram_download (instagramScraper this) (normalizedUrl v) w1 = (r2, w2)"
        by force
      obtain r3 w3 where s3: "Instagram_scrape (instagramScraper this) (normalizedUrl v) w1 = (r3, w3)"
        by force
      have "\<forall>err. r2 = Inl err \<longrightarrow> err \<noteq> ThrownUndefined"
        using d s3 assms(1)
        by (cases r3) (auto simp: Instagram_download_def dest: Instagram_scrape_error fetch_video_error)
      with assms(3) \<open>validateURL arg = Inr v\<close> Instagram s Inr d show ?thesis
        by (cases r2) (auto simp: download_try_def)
    qed
  next
    case Facebook
    obtain r1 w1 where s: "Facebook_scrape (facebookScraper this) (normalizedUrl v) w = (r1, w1)"
      by force
    show ?thesis
    proof (cases r1)
      case (Inl err)
      with s assms(2) have "err \<noteq> ThrownUndefined" by (auto dest: Facebook_scrape_error)
      with assms(3) Inr Facebook s Inl show ?thesis by (simp add: download_try_def)
    next
      case (Inr m)
      obtain r2 w2 where d: "Facebook_download (facebookScraper this) (normalizedUrl v) w1 = (r2, w2)"
        by force
      obtain r3 w3 where s3: "Facebook_scrape (facebookScraper this) (normalizedUrl v) w1 = (r3, w3)"
        by force
      have "\<forall>err. r2 = Inl err \<longrightarrow> err \<noteq> ThrownUndefined"
        using d s3 assms(2)
        by (cases r3) (auto simp: Facebook_download_def dest: Facebook_scrape_error fetch_video_error)
      with assms(3) \<open>validateURL arg = Inr v\<close> Facebook s Inr d show ?thesis
        by (cases r2) (auto simp: download_try_def)
    qed
  qed
qed

lemma download_returns_with_attempts:
  assumes "0 < retries (instagramScraper this)" and "0 < retries (facebookScraper this)"
  shows "\<exists>r. fst (download this arg opts w) = Inr r
             \<and> (success r \<longleftrightarrow> \<not> isl (fst (download_try this arg w)))
             \<and> (success r \<longrightarrow> metadata r \<noteq> None \<and> buffer r \<noteq> None \<and> error r = None)
             \<and> (\<not> success r \<longrightarrow> metadata r = None \<and> buffer r = None \<and> error r \<noteq> None)"
proof -
  obtain r1 w1 where t: "download_try this arg w = (r1, w1)" by force
  show ?thesis
  proof (cases r1)
    case (Inl err)
    with t assms have "err \<noteq> ThrownUndefined" by (auto dest: download_try_error)
    then obtain msg where "message_of err = Inr msg" by (auto dest: message_of_Exn)
    with t Inl show ?thesis by (simp add: download_def)
  next
    case (Inr res)
    with t show ?thesis by (cases res) (simp add: download_def)
  qed
qed

lemma new_SocialMediaScraper_attempts:
  assumes "retries config = None \<or> (\<exists>n\<ge>0. retries config = Some n)"
  shows "0 < retries (instagramScraper (new_SocialMediaScraper config))
       \<and> 0 < retries (facebookScraper (new_SocialMediaScraper config))"
  using assms
  by (auto simp: new_SocialMediaScraper_def InstagramScraper_config_def FacebookScraper_config_def
      or_num_def)

end
